theory Spec2Isabelle
  imports Main "HOL-Library.Sublist"
begin

section \<open>Python values used by both modules\<close>

text \<open>
  Both modules are Python. Strings are \<open>string\<close> (ASCII), \<open>None\<close> is \<open>None\<close> of an
  option type, lists are lists, exceptions are values of a sum type (\<open>Inl\<close> the raised
  exception). The virtual-server module is written for Python 2 with \<open>bigsuds\<close>; where the
  two Python versions differ (ordering of \<open>None\<close>, \<open>map\<close> returning a list) the model
  follows Python 2 and says so at the place.
\<close>

definition startswith :: "string \<Rightarrow> string \<Rightarrow> bool" where
  "startswith s p = (take (length p) s = p)"

text \<open>\<open>a in b\<close> on two strings: \<open>a\<close> occurs in \<open>b\<close> as a contiguous substring.\<close>

fun py_in_str :: "string \<Rightarrow> string \<Rightarrow> bool" where
  "py_in_str a [] = (a = [])"
| "py_in_str a (c # cs) = (startswith (c # cs) a \<or> py_in_str a cs)"

definition lower_char :: "char \<Rightarrow> char" where
  "lower_char c =
     (case map_of (zip ''ABCDEFGHIJKLMNOPQRSTUVWXYZ'' ''abcdefghijklmnopqrstuvwxyz'') c of
        Some d \<Rightarrow> d | None \<Rightarrow> c)"

definition upper_char :: "char \<Rightarrow> char" where
  "upper_char c =
     (case map_of (zip ''abcdefghijklmnopqrstuvwxyz'' ''ABCDEFGHIJKLMNOPQRSTUVWXYZ'') c of
        Some d \<Rightarrow> d | None \<Rightarrow> c)"

definition py_lower :: "string \<Rightarrow> string" where
  "py_lower s = map lower_char s"

definition py_upper :: "string \<Rightarrow> string" where
  "py_upper s = map upper_char s"

text \<open>The whitespace of \<open>str.strip()\<close> and of the regular expression class \<open>\s\<close> (ASCII).\<close>

definition is_space :: "char \<Rightarrow> bool" where
  "is_space c = (c \<in> set [CHR '' '', CHR 0x09, CHR 0x0A, CHR 0x0B, CHR 0x0C, CHR 0x0D])"

definition py_strip :: "string \<Rightarrow> string" where
  "py_strip s = rev (dropWhile is_space (rev (dropWhile is_space s)))"

text \<open>\<open>s.split(sep)[-1]\<close>: what follows the last occurrence of \<open>sep\<close> (all of \<open>s\<close> when
  \<open>sep\<close> does not occur). The separator is non-empty at its only use.\<close>

fun split_last :: "string \<Rightarrow> nat \<Rightarrow> string \<Rightarrow> string \<Rightarrow> string" where
  "split_last sep k acc [] = acc"
| "split_last sep k acc (c # cs) =
     (if k > 0 then split_last sep (k - 1) acc cs
      else if startswith (c # cs) sep
      then split_last sep (length sep - 1) (drop (length sep) (c # cs)) cs
      else split_last sep 0 acc cs)"

definition py_split_last :: "string \<Rightarrow> string \<Rightarrow> string" where
  "py_split_last s sep = split_last sep 0 s s"

text \<open>Decimal numerals: \<open>str\<close> of an integer and \<open>int\<close> of a string (an optional sign
  and ASCII digits, surrounding whitespace ignored; anything else is a \<open>ValueError\<close>,
  here \<open>None\<close>).\<close>

definition is_digit :: "char \<Rightarrow> bool" where
  "is_digit c = (c \<in> set ''0123456789'')"

definition digit_val :: "char \<Rightarrow> nat" where
  "digit_val c =
     (case map_of (zip ''0123456789'' [0, 1, 2, 3, 4, 5, 6, 7, 8, 9]) c of
        Some v \<Rightarrow> v | None \<Rightarrow> 0)"

definition digit_char :: "nat \<Rightarrow> char" where
  "digit_char n = ''0123456789'' ! (n mod 10)"

definition digits_to_nat :: "string \<Rightarrow> nat" where
  "digits_to_nat ds = foldl (\<lambda>a c. 10 * a + digit_val c) 0 ds"

fun str_nat :: "nat \<Rightarrow> string" where
  "str_nat n = (if n < 10 then [digit_char n] else str_nat (n div 10) @ [digit_char n])"

declare str_nat.simps [simp del]

definition py_str_int :: "int \<Rightarrow> string" where
  "py_str_int i = (if i < 0 then CHR ''-'' # str_nat (nat (- i)) else str_nat (nat i))"

definition py_int :: "string \<Rightarrow> int option" where
  "py_int s =
     (let t = py_strip s;
          (neg, ds) = (case t of
                         c # r \<Rightarrow> if c = CHR ''-'' then (True, r)
                                  else if c = CHR ''+'' then (False, r)
                                  else (False, t)
                       | [] \<Rightarrow> (False, t))
      in if ds \<noteq> [] \<and> list_all is_digit ds
         then Some (if neg then - int (digits_to_nat ds) else int (digits_to_nat ds))
         else None)"

text \<open>
  Modelled from the spec: \<open>fq_name\<close> and \<open>fq_list_names\<close> of
  \<open>ansible.module_utils.f5_utils\<close>, which is not under src/. The spec (4.1): a reference
  that does not already begin with the partition delimiter is prefixed with
  \<open>/<partition>/\<close>; \<open>None\<close> stays \<open>None\<close>.
\<close>

definition fq_name :: "string \<Rightarrow> string option \<Rightarrow> string option" where
  "fq_name part name =
     (case name of
        None \<Rightarrow> None
      | Some n \<Rightarrow> if \<not> startswith n ''/'' then Some (''/'' @ part @ ''/'' @ n) else Some n)"

definition fq_list_names :: "string \<Rightarrow> string list option \<Rightarrow> string list option" where
  "fq_list_names part list_names =
     (case list_names of
        None \<Rightarrow> None
      | Some ns \<Rightarrow> Some (map (\<lambda>x. the (fq_name part (Some x))) ns))"

section \<open>The virtual-server module (\<open>_bigip_virtual_server.py\<close>)\<close>

subsection \<open>Exceptions and the device\<close>

datatype exn =
    OperationFailed string
  | F5ModuleError string
  | KeyError string
  | ValueError string
  | TypeError string
  | AttributeError string
  | IOError string
  | PyException string

fun exn_str :: "exn \<Rightarrow> string" where
  "exn_str (OperationFailed m) = m"
| "exn_str (F5ModuleError m) = m"
| "exn_str (KeyError m) = CHR 0x27 # m @ [CHR 0x27]"
| "exn_str (ValueError m) = m"
| "exn_str (TypeError m) = m"
| "exn_str (AttributeError m) = m"
| "exn_str (IOError m) = m"
| "exn_str (PyException m) = m"

fun is_OperationFailed :: "exn \<Rightarrow> bool" where
  "is_OperationFailed (OperationFailed m) = True"
| "is_OperationFailed e = False"

text \<open>
  A string object returned by the device. The module compares two of them with \<open>is\<close>
  (object identity) against a constant of its own text; CPython interns such a constant, so
  the test is true exactly when the device's string is that same interned object.
\<close>

record pystr =
  content :: string
  interned :: bool

definition py_is :: "pystr \<Rightarrow> string \<Rightarrow> bool" where
  "py_is x lit = (interned x \<and> content x = lit)"

record profile =
  profile_context :: string
  profile_name :: string

record rule =
  priority :: nat
  rule_name :: string

record persistence =
  pers_profile_name :: string
  default_profile :: bool

record vlan_filter =
  vlan_state :: pystr
  vlans :: "string list"

record destination =
  address :: string
  port :: int

text \<open>The operations of the iControl SOAP interface the module uses.\<close>

datatype vs_op =
    GetObjectStatus | Create | DeleteVirtualServer
  | GetRule | RemoveRule | AddRule
  | GetProfile | RemoveProfile | AddProfile
  | GetContentPolicy | RemoveContentPolicy | AddContentPolicy
  | GetVlan | SetVlan
  | GetSnatType | GetSnatPool | SetSnatNone | SetSnatAutomap | SetSnatPool
  | GetDefaultPoolName | SetDefaultPoolName
  | GetDestination | SetDestination
  | GetEnabledState | SetEnabledState
  | GetDescription | SetDescription
  | GetPersistenceProfile | RemovePersistenceProfile | AddPersistenceProfile
  | GetFallbackPersistenceProfile | SetFallbackPersistenceProfile
  | GetRouteAdvertisementState | SetRouteAdvertisementState
  | StartTransaction | SubmitTransaction

text \<open>A mutating call as it is issued, with what it transmits.\<close>

datatype vs_call =
    CallCreate string "string option" int "string option" "profile list"
  | CallDelete string
  | CallRemoveRule "rule list"
  | CallAddRule "rule list"
  | CallRemoveProfile "profile list"
  | CallAddProfile "profile list"
  | CallRemoveContentPolicy "string list"
  | CallAddContentPolicy "string list"
  | CallSetVlan string "string list list"
  | CallSetSnatNone
  | CallSetSnatAutomap
  | CallSetSnatPool string
  | CallSetDefaultPoolName string
  | CallSetDestination string int
  | CallSetEnabledState string
  | CallSetDescription string
  | CallRemovePersistenceProfile string
  | CallAddPersistenceProfile string
  | CallSetFallbackPersistenceProfile string
  | CallSetRouteAdvertisementState string string
  | CallStartTransaction
  | CallSubmitTransaction

text \<open>
  The device, as far as one pass of the module sees it: the virtual server of the given name
  (present or not, with its attributes), the advertisement state of its virtual address, the
  mutating calls issued so far (\<open>vs_calls\<close>, oldest first), and \<open>vs_faults\<close>: the operations
  that fail on this device, each with the text of the \<open>bigsuds.OperationFailed\<close> it raises
  (another actor racing with the pass, a refusal by the device). A mutating call is recorded
  when it is issued, whether or not it then fails; a call that succeeds takes effect at once.
\<close>

record vs_device =
  vs_present :: bool
  vs_destination :: destination
  vs_pool :: string
  vs_description :: string
  vs_snat_type :: string
  vs_snat_pool :: string
  vs_profiles :: "profile list"
  vs_policies :: "string list"
  vs_vlan :: vlan_filter
  vs_rules :: "rule list"
  vs_persistence :: "persistence list"
  vs_fallback_persistence :: string
  vs_enabled_state :: string
  vs_route_advertisement :: "string list"
  vs_calls :: "vs_call list"
  vs_faults :: "(vs_op \<times> string) list"

type_synonym 'a vs_prog = "vs_device \<Rightarrow> (exn + 'a) \<times> vs_device"

definition returnE :: "'a \<Rightarrow> 's \<Rightarrow> ('e + 'a) \<times> 's" where
  "returnE a s = (Inr a, s)"

definition liftE :: "'e + 'a \<Rightarrow> 's \<Rightarrow> ('e + 'a) \<times> 's" where
  "liftE r s = (r, s)"

definition raiseE :: "'e \<Rightarrow> 's \<Rightarrow> ('e + 'a) \<times> 's" where
  "raiseE e s = (Inl e, s)"

definition bindE ::
  "('s \<Rightarrow> ('e + 'a) \<times> 's) \<Rightarrow> ('a \<Rightarrow> 's \<Rightarrow> ('e + 'b) \<times> 's) \<Rightarrow> 's \<Rightarrow> ('e + 'b) \<times> 's" where
  "bindE m f s = (case m s of (Inl e, s') \<Rightarrow> (Inl e, s') | (Inr a, s') \<Rightarrow> f a s')"

text \<open>\<open>try: m except ...: h\<close>, the handler seeing the exception.\<close>

definition catchE ::
  "('s \<Rightarrow> ('e + 'a) \<times> 's) \<Rightarrow> ('e \<Rightarrow> 's \<Rightarrow> ('e + 'a) \<times> 's) \<Rightarrow> 's \<Rightarrow> ('e + 'a) \<times> 's" where
  "catchE m h s = (case m s of (Inl e, s') \<Rightarrow> h e s' | (Inr a, s') \<Rightarrow> (Inr a, s'))"

definition not_found_msg :: string where
  "not_found_msg = ''01020036:3: The requested virtual server was not found.''"

text \<open>
  A reading operation: it fails if the device is set to fail it, and (apart from the
  existence probe's own report) if the virtual server is not there.
\<close>

definition vs_read :: "vs_op \<Rightarrow> (vs_device \<Rightarrow> 'a) \<Rightarrow> 'a vs_prog" where
  "vs_read opn f d =
     (case map_of (vs_faults d) opn of
        Some m \<Rightarrow> (Inl (OperationFailed m), d)
      | None \<Rightarrow>
          if \<not> vs_present d then (Inl (OperationFailed not_found_msg), d)
          else (Inr (f d), d))"

text \<open>A mutating operation on the virtual server: recorded, then refused or applied.\<close>

definition vs_write :: "vs_op \<Rightarrow> vs_call \<Rightarrow> (vs_device \<Rightarrow> vs_device) \<Rightarrow> unit vs_prog" where
  "vs_write opn c f d =
     (let d1 = d\<lparr>vs_calls := vs_calls d @ [c]\<rparr> in
      case map_of (vs_faults d) opn of
        Some m \<Rightarrow> (Inl (OperationFailed m), d1)
      | None \<Rightarrow>
          if \<not> vs_present d then (Inl (OperationFailed not_found_msg), d1)
          else (Inr (), f d1))"

subsection \<open>Existence, creation, removal\<close>

definition vs_exists :: "string \<Rightarrow> bool vs_prog" where
  "vs_exists vs =
     catchE (bindE (vs_read GetObjectStatus (\<lambda>d. ())) (\<lambda>_. returnE True))
       (\<lambda>e. if is_OperationFailed e
            then (if py_in_str ''was not found'' (exn_str e) then returnE False else raiseE e)
            else raiseE e)"

definition default_profiles :: "profile list" where
  "default_profiles = [\<lparr>profile_context = ''PROFILE_CONTEXT_TYPE_ALL'', profile_name = ''tcp''\<rparr>]"

text \<open>The device's side of \<open>create\<close>: refused if set to fail; otherwise the virtual server
  exists afterwards with the transmitted attributes and the device's defaults.\<close>

definition dev_create ::
  "string \<Rightarrow> string option \<Rightarrow> int \<Rightarrow> string option \<Rightarrow> profile list \<Rightarrow> unit vs_prog" where
  "dev_create name dest prt pool profs d =
     (let d1 = d\<lparr>vs_calls := vs_calls d @ [CallCreate name dest prt pool profs]\<rparr> in
      case map_of (vs_faults d) Create of
        Some m \<Rightarrow> (Inl (OperationFailed m), d1)
      | None \<Rightarrow>
          (Inr (), d1\<lparr>vs_present := True,
                      vs_destination := \<lparr>address = (case dest of Some a \<Rightarrow> a | None \<Rightarrow> []), port = prt\<rparr>,
                      vs_pool := (case pool of Some p \<Rightarrow> p | None \<Rightarrow> []),
                      vs_description := [],
                      vs_snat_type := ''SRC_TRANS_NONE'',
                      vs_snat_pool := [],
                      vs_profiles := profs,
                      vs_policies := [],
                      vs_vlan := \<lparr>vlan_state = \<lparr>content = ''STATE_DISABLED'', interned = False\<rparr>,
                                  vlans = []\<rparr>,
                      vs_rules := [],
                      vs_persistence := [],
                      vs_fallback_persistence := [],
                      vs_enabled_state := ''STATE_ENABLED''\<rparr>))"

definition vs_create ::
  "string \<Rightarrow> string option \<Rightarrow> int \<Rightarrow> string option \<Rightarrow> string list option \<Rightarrow> bool vs_prog" where
  "vs_create name dest prt pool profiles =
     (let profs =
        (if profiles \<noteq> None \<and> profiles \<noteq> Some []
         then map (\<lambda>p. \<lparr>profile_context = ''PROFILE_CONTEXT_TYPE_ALL'', profile_name = p\<rparr>)
                (the profiles)
         else default_profiles)
      in catchE (bindE (dev_create name dest prt pool profs) (\<lambda>_. returnE True))
           (\<lambda>e. if is_OperationFailed e
                then raiseE (PyException (''Error on creating Virtual Server : '' @ exn_str e))
                else raiseE e))"

definition vs_remove :: "string \<Rightarrow> unit vs_prog" where
  "vs_remove name = vs_write DeleteVirtualServer (CallDelete name) (\<lambda>d. d\<lparr>vs_present := False\<rparr>)"

subsection \<open>Profiles and policies\<close>

definition get_profiles :: "string \<Rightarrow> (profile list) vs_prog" where
  "get_profiles name = vs_read GetProfile vs_profiles"

definition to_add_profiles :: "string list \<Rightarrow> string list \<Rightarrow> profile list" where
  "to_add_profiles profiles_list current_profiles =
     map (\<lambda>x. \<lparr>profile_context = ''PROFILE_CONTEXT_TYPE_ALL'', profile_name = x\<rparr>)
       (filter (\<lambda>x. x \<notin> set current_profiles) profiles_list)"

definition to_del_profiles :: "string list \<Rightarrow> string list \<Rightarrow> profile list" where
  "to_del_profiles profiles_list current_profiles =
     map (\<lambda>x. \<lparr>profile_context = ''PROFILE_CONTEXT_TYPE_ALL'', profile_name = x\<rparr>)
       (filter (\<lambda>x. x \<notin> set profiles_list \<and> x \<noteq> ''/Common/tcp'') current_profiles)"

definition remove_profile :: "string \<Rightarrow> profile list \<Rightarrow> unit vs_prog" where
  "remove_profile name ps =
     vs_write RemoveProfile (CallRemoveProfile ps)
       (\<lambda>d. d\<lparr>vs_profiles :=
                filter (\<lambda>p. profile_name p \<notin> set (map profile_name ps)) (vs_profiles d)\<rparr>)"

definition add_profile :: "string \<Rightarrow> profile list \<Rightarrow> unit vs_prog" where
  "add_profile name ps =
     vs_write AddProfile (CallAddProfile ps) (\<lambda>d. d\<lparr>vs_profiles := vs_profiles d @ ps\<rparr>)"

text \<open>The body of the \<open>try\<close> of \<open>set_profiles\<close>, for a list that is not \<open>None\<close>.\<close>

definition set_profiles_body :: "string \<Rightarrow> string list \<Rightarrow> bool vs_prog" where
  "set_profiles_body name profiles_list =
     bindE (get_profiles name) (\<lambda>got.
       let current_profiles = map profile_name got;
           to_add = to_add_profiles profiles_list current_profiles;
           to_del = to_del_profiles profiles_list current_profiles
       in
       bindE (if length to_del > 0
              then bindE (remove_profile name to_del) (\<lambda>_. returnE True)
              else returnE False) (\<lambda>updated1.
       bindE (if length to_add > 0
              then bindE (add_profile name to_add) (\<lambda>_. returnE True)
              else returnE updated1) (\<lambda>updated.
       bindE (get_profiles name) (\<lambda>got2.
         if length (map profile_name got2) = 0
         then raiseE (F5ModuleError ''Virtual servers must has at least one profile'')
         else returnE updated))))"

definition set_profiles :: "string \<Rightarrow> string list option \<Rightarrow> bool vs_prog" where
  "set_profiles name profiles_list =
     catchE
       (case profiles_list of
          None \<Rightarrow> returnE False
        | Some pl \<Rightarrow> set_profiles_body name pl)
       (\<lambda>e. if is_OperationFailed e
            then raiseE (PyException (''Error on setting profiles : '' @ exn_str e))
            else raiseE e)"

definition get_policies :: "string \<Rightarrow> (string list) vs_prog" where
  "get_policies name = vs_read GetContentPolicy vs_policies"

definition to_add_policies :: "string list \<Rightarrow> string list \<Rightarrow> string list" where
  "to_add_policies policies_list current_policies =
     filter (\<lambda>x. x \<notin> set current_policies) policies_list"

definition to_del_policies :: "string list \<Rightarrow> string list \<Rightarrow> string list" where
  "to_del_policies policies_list current_policies =
     filter (\<lambda>x. x \<notin> set policies_list) current_policies"

definition remove_content_policy :: "string \<Rightarrow> string list \<Rightarrow> unit vs_prog" where
  "remove_content_policy name ps =
     vs_write RemoveContentPolicy (CallRemoveContentPolicy ps)
       (\<lambda>d. d\<lparr>vs_policies := filter (\<lambda>p. p \<notin> set ps) (vs_policies d)\<rparr>)"

definition add_content_policy :: "string \<Rightarrow> string list \<Rightarrow> unit vs_prog" where
  "add_content_policy name ps =
     vs_write AddContentPolicy (CallAddContentPolicy ps)
       (\<lambda>d. d\<lparr>vs_policies := vs_policies d @ ps\<rparr>)"

definition set_policies_body :: "string \<Rightarrow> string list \<Rightarrow> bool vs_prog" where
  "set_policies_body name policies_list =
     bindE (get_policies name) (\<lambda>current_policies.
       let to_add = to_add_policies policies_list current_policies;
           to_del = to_del_policies policies_list current_policies
       in
       bindE (if length to_del > 0
              then bindE (remove_content_policy name to_del) (\<lambda>_. returnE True)
              else returnE False) (\<lambda>updated1.
       if length to_add > 0
       then bindE (add_content_policy name to_add) (\<lambda>_. returnE True)
       else returnE updated1))"

definition set_policies :: "string \<Rightarrow> string list option \<Rightarrow> bool vs_prog" where
  "set_policies name policies_list =
     catchE
       (case policies_list of
          None \<Rightarrow> returnE False
        | Some pl \<Rightarrow> set_policies_body name pl)
       (\<lambda>e. if is_OperationFailed e
            then raiseE (PyException (''Error on setting policies : '' @ exn_str e))
            else raiseE e)"

subsection \<open>Rules\<close>

definition get_rules :: "string \<Rightarrow> (rule list) vs_prog" where
  "get_rules name = vs_read GetRule vs_rules"

definition remove_rule :: "string \<Rightarrow> rule list \<Rightarrow> unit vs_prog" where
  "remove_rule name rs =
     vs_write RemoveRule (CallRemoveRule rs)
       (\<lambda>d. d\<lparr>vs_rules := filter (\<lambda>r. r \<notin> set rs) (vs_rules d)\<rparr>)"

definition add_rule :: "string \<Rightarrow> rule list \<Rightarrow> unit vs_prog" where
  "add_rule name rs = vs_write AddRule (CallAddRule rs) (\<lambda>d. d\<lparr>vs_rules := vs_rules d @ rs\<rparr>)"

definition set_rules :: "string \<Rightarrow> string list option \<Rightarrow> bool vs_prog" where
  "set_rules name rules_list =
     (case rules_list of
        None \<Rightarrow> returnE False
      | Some rl \<Rightarrow>
          (let rules_list = zip [0..<length rl] rl in
           catchE
             (bindE (get_rules name) (\<lambda>got.
                let current_rules = map (\<lambda>x. (priority x, rule_name x)) got;
                    to_add_rules = map (\<lambda>(i, x). \<lparr>priority = i, rule_name = x\<rparr>)
                                     (filter (\<lambda>ix. ix \<notin> set current_rules) rules_list);
                    to_del_rules = map (\<lambda>(i, x). \<lparr>priority = i, rule_name = x\<rparr>)
                                     (filter (\<lambda>ix. ix \<notin> set rules_list) current_rules)
                in
                bindE (if length to_del_rules > 0
                       then bindE (remove_rule name to_del_rules) (\<lambda>_. returnE True)
                       else returnE False) (\<lambda>updated1.
                if length to_add_rules > 0
                then bindE (add_rule name to_add_rules) (\<lambda>_. returnE True)
                else returnE updated1)))
             (\<lambda>e. if is_OperationFailed e
                  then raiseE (PyException (''Error on setting rules : '' @ exn_str e))
                  else raiseE e)))"

subsection \<open>The VLAN allow-list\<close>

definition get_vlan :: "string \<Rightarrow> vlan_filter vs_prog" where
  "get_vlan name = vs_read GetVlan vs_vlan"

text \<open>The device's side of \<open>set_vlan\<close>: the filter is replaced by what was transmitted; the
  strings the device later returns are objects of its own.\<close>

definition set_vlan :: "string \<Rightarrow> string \<Rightarrow> string list list \<Rightarrow> unit vs_prog" where
  "set_vlan name st vl =
     vs_write SetVlan (CallSetVlan st vl)
       (\<lambda>d. d\<lparr>vs_vlan := \<lparr>vlan_state = \<lparr>content = st, interned = False\<rparr>, vlans = concat vl\<rparr>\<rparr>)"

definition set_enabled_vlans :: "string \<Rightarrow> string list option \<Rightarrow> bool vs_prog" where
  "set_enabled_vlans name vlans_enabled_list =
     catchE
       (case vlans_enabled_list of
          None \<Rightarrow> returnE False
        | Some vl \<Rightarrow>
            bindE (get_vlan name) (\<lambda>current_vlans.
              if ''ALL'' \<in> set vl then
                (if length (vlans current_vlans) > 0
                    \<or> py_is (vlan_state current_vlans) ''STATE_ENABLED''
                 then bindE (set_vlan name ''STATE_DISABLED'' []) (\<lambda>_. returnE True)
                 else returnE False)
              else
                (let (updated, to_add_vlans) =
                       (if py_is (vlan_state current_vlans) ''STATE_DISABLED''
                        then (False, vl)
                        else if filter (\<lambda>vlan. vlan \<notin> set (vlans current_vlans)) vl \<noteq> []
                        then (True, vl)
                        else (False, []))
                 in if updated
                    then bindE (set_vlan name ''STATE_ENABLED'' [to_add_vlans])
                           (\<lambda>_. returnE updated)
                    else returnE updated)))
       (\<lambda>e. if is_OperationFailed e
            then raiseE (PyException (''Error on setting enabled vlans : '' @ exn_str e))
            else raiseE e)"

subsection \<open>Source address translation\<close>

definition get_snat_type :: "string \<Rightarrow> string vs_prog" where
  "get_snat_type name = vs_read GetSnatType vs_snat_type"

definition get_snat_pool :: "string \<Rightarrow> string vs_prog" where
  "get_snat_pool name = vs_read GetSnatPool vs_snat_pool"

definition snat_settings_need_updating :: "string \<Rightarrow> string \<Rightarrow> string \<Rightarrow> bool" where
  "snat_settings_need_updating snat current_state current_snat_pool =
     (if snat = ''None'' \<or> snat = ''Automap'' then False
      else if snat \<noteq> [] \<and> current_state \<noteq> ''SRC_TRANS_SNATPOOL'' then True
      else if snat \<noteq> [] \<and> current_state = ''SRC_TRANS_SNATPOOL'' \<and> current_snat_pool \<noteq> snat
      then True
      else False)"

definition set_snat :: "string \<Rightarrow> string option \<Rightarrow> bool vs_prog" where
  "set_snat name snat =
     catchE
       (bindE (get_snat_type name) (\<lambda>current_state.
        bindE (get_snat_pool name) (\<lambda>current_snat_pool.
          case snat of
            None \<Rightarrow> returnE False
          | Some sn \<Rightarrow>
              if sn = ''None'' \<and> current_state \<noteq> ''SRC_TRANS_NONE''
              then bindE (vs_write SetSnatNone CallSetSnatNone
                            (\<lambda>d. d\<lparr>vs_snat_type := ''SRC_TRANS_NONE''\<rparr>))
                     (\<lambda>_. returnE True)
              else if sn = ''Automap'' \<and> current_state \<noteq> ''SRC_TRANS_AUTOMAP''
              then bindE (vs_write SetSnatAutomap CallSetSnatAutomap
                            (\<lambda>d. d\<lparr>vs_snat_type := ''SRC_TRANS_AUTOMAP''\<rparr>))
                     (\<lambda>_. returnE True)
              else if snat_settings_need_updating sn current_state current_snat_pool
              then bindE (vs_write SetSnatPool (CallSetSnatPool sn)
                            (\<lambda>d. d\<lparr>vs_snat_type := ''SRC_TRANS_SNATPOOL'', vs_snat_pool := sn\<rparr>))
                     (\<lambda>_. returnE False)
              else returnE False)))
       (\<lambda>e. if is_OperationFailed e
            then raiseE (PyException (''Error on setting snat : '' @ exn_str e))
            else raiseE e)"

subsection \<open>Pool, destination, port, state, description\<close>

definition get_pool :: "string \<Rightarrow> string vs_prog" where
  "get_pool name = vs_read GetDefaultPoolName vs_pool"

definition set_pool :: "string \<Rightarrow> string option \<Rightarrow> bool vs_prog" where
  "set_pool name pool =
     catchE
       (bindE (get_pool name) (\<lambda>current_pool.
          if pool \<noteq> None \<and> pool \<noteq> Some current_pool
          then bindE (vs_write SetDefaultPoolName (CallSetDefaultPoolName (the pool))
                        (\<lambda>d. d\<lparr>vs_pool := the pool\<rparr>))
                 (\<lambda>_. returnE True)
          else returnE False))
       (\<lambda>e. if is_OperationFailed e
            then raiseE (PyException (''Error on setting pool : '' @ exn_str e))
            else raiseE e)"

definition get_destination :: "string \<Rightarrow> destination vs_prog" where
  "get_destination name = vs_read GetDestination vs_destination"

definition set_destination_v2 :: "string \<Rightarrow> string \<Rightarrow> int \<Rightarrow> unit vs_prog" where
  "set_destination_v2 name a p =
     vs_write SetDestination (CallSetDestination a p)
       (\<lambda>d. d\<lparr>vs_destination := \<lparr>address = a, port = p\<rparr>\<rparr>)"

definition set_destination :: "string \<Rightarrow> string option \<Rightarrow> bool vs_prog" where
  "set_destination name dest =
     catchE
       (bindE (get_destination name) (\<lambda>current_destination.
          if dest \<noteq> None \<and> dest \<noteq> Some (address current_destination)
          then bindE (set_destination_v2 name (the dest) (port current_destination))
                 (\<lambda>_. returnE True)
          else returnE False))
       (\<lambda>e. if is_OperationFailed e
            then raiseE (PyException (''Error on setting destination : '' @ exn_str e))
            else raiseE e)"

definition set_port :: "string \<Rightarrow> int option \<Rightarrow> bool vs_prog" where
  "set_port name prt =
     catchE
       (bindE (get_destination name) (\<lambda>current_destination.
          if prt \<noteq> None \<and> prt \<noteq> Some (port current_destination)
          then bindE (set_destination_v2 name (address current_destination) (the prt))
                 (\<lambda>_. returnE True)
          else returnE False))
       (\<lambda>e. if is_OperationFailed e
            then raiseE (PyException (''Error on setting port : '' @ exn_str e))
            else raiseE e)"

text \<open>The module's table \<open>STATES\<close>; a key that is not in it raises \<open>KeyError\<close>.\<close>

definition STATES :: "string \<Rightarrow> string option" where
  "STATES = map_of [(''enabled'', ''STATE_ENABLED''), (''disabled'', ''STATE_DISABLED'')]"

definition get_state :: "string \<Rightarrow> string vs_prog" where
  "get_state name = vs_read GetEnabledState vs_enabled_state"

definition set_state :: "string \<Rightarrow> string \<Rightarrow> bool vs_prog" where
  "set_state name state0 =
     catchE
       (bindE (get_state name) (\<lambda>current_state.
          let state = (if state0 = ''present'' then ''enabled'' else state0) in
          case STATES state of
            None \<Rightarrow> raiseE (KeyError state)
          | Some st \<Rightarrow>
              if st \<noteq> current_state
              then bindE (vs_write SetEnabledState (CallSetEnabledState st)
                            (\<lambda>d. d\<lparr>vs_enabled_state := st\<rparr>))
                     (\<lambda>_. returnE True)
              else returnE False))
       (\<lambda>e. if is_OperationFailed e
            then raiseE (PyException (''Error on setting state : '' @ exn_str e))
            else raiseE e)"

definition get_description :: "string \<Rightarrow> string vs_prog" where
  "get_description name = vs_read GetDescription vs_description"

definition set_description :: "string \<Rightarrow> string option \<Rightarrow> bool vs_prog" where
  "set_description name description =
     catchE
       (bindE (get_description name) (\<lambda>current_description.
          if description \<noteq> None \<and> Some current_description \<noteq> description
          then bindE (vs_write SetDescription (CallSetDescription (the description))
                        (\<lambda>d. d\<lparr>vs_description := the description\<rparr>))
                 (\<lambda>_. returnE True)
          else returnE False))
       (\<lambda>e. if is_OperationFailed e
            then raiseE (PyException (''Error on setting description : '' @ exn_str e @ '' ''))
            else raiseE e)"

subsection \<open>Persistence profiles\<close>

definition get_persistence_profiles :: "string \<Rightarrow> (persistence list) vs_prog" where
  "get_persistence_profiles name = vs_read GetPersistenceProfile vs_persistence"

text \<open>The loop that looks for the default profile: the first entry flagged as default.\<close>

fun find_default :: "persistence list \<Rightarrow> string option" where
  "find_default [] = None"
| "find_default (p # ps) = (if default_profile p then Some (pers_profile_name p) else find_default ps)"

definition set_default_persistence_profiles :: "string \<Rightarrow> string option \<Rightarrow> bool vs_prog" where
  "set_default_persistence_profiles name persistence_profile =
     (case persistence_profile of
        None \<Rightarrow> returnE False
      | Some pp \<Rightarrow>
          catchE
            (bindE (get_persistence_profiles name) (\<lambda>current_persistence_profiles.
               let default = find_default current_persistence_profiles in
               bindE (if default \<noteq> None \<and> default \<noteq> Some pp
                      then vs_write RemovePersistenceProfile
                             (CallRemovePersistenceProfile (the default))
                             (\<lambda>d. d\<lparr>vs_persistence :=
                                      filter (\<lambda>p. pers_profile_name p \<noteq> the default)
                                        (vs_persistence d)\<rparr>)
                      else returnE ()) (\<lambda>_.
               if default \<noteq> Some pp
               then bindE (vs_write AddPersistenceProfile (CallAddPersistenceProfile pp)
                             (\<lambda>d. d\<lparr>vs_persistence :=
                                      vs_persistence d
                                      @ [\<lparr>pers_profile_name = pp, default_profile = True\<rparr>]\<rparr>))
                      (\<lambda>_. returnE True)
               else returnE False)))
            (\<lambda>e. if is_OperationFailed e
                 then raiseE (PyException
                        (''Error on setting default persistence profile : '' @ exn_str e))
                 else raiseE e))"

definition get_fallback_persistence_profile :: "string \<Rightarrow> string vs_prog" where
  "get_fallback_persistence_profile name =
     vs_read GetFallbackPersistenceProfile vs_fallback_persistence"

definition set_fallback_persistence_profile ::
  "string \<Rightarrow> string \<Rightarrow> string option \<Rightarrow> bool vs_prog" where
  "set_fallback_persistence_profile part name persistence_profile =
     (case persistence_profile of
        None \<Rightarrow> returnE False
      | Some pp0 \<Rightarrow>
          catchE
            (let pp = (if pp0 \<noteq> [] then the (fq_name part (Some pp0)) else pp0) in
             bindE (get_fallback_persistence_profile name) (\<lambda>current_fallback_profile.
               if current_fallback_profile \<noteq> pp
               then bindE (vs_write SetFallbackPersistenceProfile
                             (CallSetFallbackPersistenceProfile pp)
                             (\<lambda>d. d\<lparr>vs_fallback_persistence := pp\<rparr>))
                      (\<lambda>_. returnE True)
               else returnE False))
            (\<lambda>e. if is_OperationFailed e
                 then raiseE (PyException
                        (''Error on setting fallback persistence profile : '' @ exn_str e))
                 else raiseE e))"

subsection \<open>Route advertisement of the virtual address\<close>

text \<open>The virtual address is an object of its own: these two operations do not depend on
  the virtual server being there.\<close>

definition va_read :: "vs_op \<Rightarrow> (vs_device \<Rightarrow> 'a) \<Rightarrow> 'a vs_prog" where
  "va_read opn f d =
     (case map_of (vs_faults d) opn of
        Some m \<Rightarrow> (Inl (OperationFailed m), d)
      | None \<Rightarrow> (Inr (f d), d))"

definition va_write :: "vs_op \<Rightarrow> vs_call \<Rightarrow> (vs_device \<Rightarrow> vs_device) \<Rightarrow> unit vs_prog" where
  "va_write opn c f d =
     (let d1 = d\<lparr>vs_calls := vs_calls d @ [c]\<rparr> in
      case map_of (vs_faults d) opn of
        Some m \<Rightarrow> (Inl (OperationFailed m), d1)
      | None \<Rightarrow> (Inr (), f d1))"

definition get_route_advertisement_status :: "string option \<Rightarrow> (string option) vs_prog" where
  "get_route_advertisement_status addr =
     bindE (va_read GetRouteAdvertisementState vs_route_advertisement) (\<lambda>results.
       case results of
         [] \<Rightarrow> returnE None
       | r # _ \<Rightarrow> returnE (Some (py_lower (py_split_last r ''STATE_''))))"

definition set_route_advertisement_state ::
  "string option \<Rightarrow> string \<Rightarrow> string option \<Rightarrow> bool vs_prog" where
  "set_route_advertisement_state dest part route_advertisement_state =
     (case route_advertisement_state of
        None \<Rightarrow> returnE False
      | Some ras \<Rightarrow>
          catchE
            (let state = ''STATE_'' @ py_upper (py_strip ras);
                 addr = fq_name part dest
             in bindE (get_route_advertisement_status addr) (\<lambda>current.
                  if current \<noteq> Some ras
                  then bindE (va_write SetRouteAdvertisementState
                                (CallSetRouteAdvertisementState
                                   (case addr of Some a \<Rightarrow> a | None \<Rightarrow> []) state)
                                (\<lambda>d. d\<lparr>vs_route_advertisement := [state]\<rparr>))
                         (\<lambda>_. returnE True)
                  else returnE False))
            (\<lambda>e. if is_OperationFailed e
                 then raiseE (PyException (''Error on setting profiles : '' @ exn_str e))
                 else raiseE e))"

subsection \<open>The pass: \<open>main\<close>\<close>

record vs_params =
  vp_state :: string
  vp_partition :: string
  vp_name :: string
  vp_destination :: "string option"
  vp_port :: "string option"
  vp_all_policies :: "string list option"
  vp_all_profiles :: "string list option"
  vp_all_rules :: "string list option"
  vp_enabled_vlans :: "string list option"
  vp_pool :: "string option"
  vp_description :: "string option"
  vp_snat :: "string option"
  vp_route_advertisement_state :: "string option"
  vp_default_persistence_profile :: "string option"
  vp_fallback_persistence_profile :: "string option"

record vs_result =
  changed :: bool
  deleted :: "string option"

text \<open>How a pass ends: \<open>exit_json\<close> with the result, \<open>fail_json\<close> with a message, or an
  exception nothing catches.\<close>

datatype vs_outcome = ExitJson vs_result | FailJson string | Uncaught exn

text \<open>Python 2 orders \<open>None\<close> below every integer; \<open>a > b\<close> on values that may be
  \<open>None\<close>.\<close>

fun py2_gt :: "int option \<Rightarrow> int option \<Rightarrow> bool" where
  "py2_gt (Some a) (Some b) = (a > b)"
| "py2_gt (Some a) None = True"
| "py2_gt None b = False"

text \<open>The chained comparison \<open>0 > port > 65535\<close>, that is \<open>0 > port and port > 65535\<close>.\<close>

definition port_out_of_range :: "int option \<Rightarrow> bool" where
  "port_out_of_range prt = (py2_gt (Some 0) prt \<and> py2_gt prt (Some 65535))"

definition or_changed :: "bool \<Rightarrow> bool vs_prog \<Rightarrow> bool vs_prog" where
  "or_changed c m = bindE m (\<lambda>u. returnE (c \<or> u))"

definition start_transaction :: "unit vs_prog" where
  "start_transaction = va_write StartTransaction CallStartTransaction (\<lambda>d. d)"

definition submit_transaction :: "unit vs_prog" where
  "submit_transaction = va_write SubmitTransaction CallSubmitTransaction (\<lambda>d. d)"

text \<open>The branch \<open>state == 'absent'\<close>.\<close>

definition vs_absent_branch :: "bool \<Rightarrow> string \<Rightarrow> vs_result vs_prog" where
  "vs_absent_branch check_mode name =
     (if \<not> check_mode then
        bindE (vs_exists name) (\<lambda>ex.
          if ex then
            catchE (bindE (vs_remove name) (\<lambda>_. returnE \<lparr>changed = True, deleted = Some name\<rparr>))
              (\<lambda>e. if is_OperationFailed e
                   then (if py_in_str ''was not found'' (exn_str e)
                         then returnE \<lparr>changed = False, deleted = None\<rparr>
                         else raiseE e)
                   else raiseE e)
          else returnE \<lparr>changed = False, deleted = None\<rparr>)
      else returnE \<lparr>changed = True, deleted = None\<rparr>)"

text \<open>The calls of a creation, one after the other, outside any transaction.\<close>

definition vs_create_steps ::
  "string \<Rightarrow> string \<Rightarrow> string option \<Rightarrow> int \<Rightarrow> string option \<Rightarrow> vs_params
   \<Rightarrow> string list option \<Rightarrow> string list option \<Rightarrow> string list option \<Rightarrow> string list option
   \<Rightarrow> string option \<Rightarrow> vs_result vs_prog" where
  "vs_create_steps name part dest prt pool p all_profiles all_policies all_rules
     all_enabled_vlans default_persistence_profile =
     catchE
       (bindE (vs_create name dest prt pool all_profiles) (\<lambda>_.
        bindE (set_policies name all_policies) (\<lambda>_.
        bindE (set_enabled_vlans name all_enabled_vlans) (\<lambda>_.
        bindE (set_rules name all_rules) (\<lambda>_.
        bindE (set_snat name (vp_snat p)) (\<lambda>_.
        bindE (set_description name (vp_description p)) (\<lambda>_.
        bindE (set_default_persistence_profiles name default_persistence_profile) (\<lambda>_.
        bindE (set_fallback_persistence_profile part name
                 (vp_fallback_persistence_profile p)) (\<lambda>_.
        bindE (set_state name (vp_state p)) (\<lambda>_.
        bindE (set_route_advertisement_state dest part (vp_route_advertisement_state p)) (\<lambda>_.
        returnE \<lparr>changed = True, deleted = None\<rparr>)))))))))))
       (\<lambda>e. if is_OperationFailed e
            then raiseE (PyException (''Error on creating Virtual Server : '' @ exn_str e))
            else raiseE e)"

text \<open>The calls of an update, inside one transaction of the device.\<close>

definition vs_update_steps ::
  "string \<Rightarrow> string \<Rightarrow> string option \<Rightarrow> int option \<Rightarrow> string option \<Rightarrow> vs_params
   \<Rightarrow> string list option \<Rightarrow> string list option \<Rightarrow> string list option \<Rightarrow> string list option
   \<Rightarrow> string option \<Rightarrow> vs_result vs_prog" where
  "vs_update_steps name part dest prt pool p all_profiles all_policies all_rules
     all_enabled_vlans default_persistence_profile =
     catchE
       (bindE start_transaction (\<lambda>_.
        bindE (or_changed False (set_destination name (fq_name part dest))) (\<lambda>c1.
        bindE (or_changed c1 (set_port name prt)) (\<lambda>c2.
        bindE (or_changed c2 (set_pool name pool)) (\<lambda>c3.
        bindE (or_changed c3 (set_description name (vp_description p))) (\<lambda>c4.
        bindE (or_changed c4 (set_snat name (vp_snat p))) (\<lambda>c5.
        bindE (or_changed c5 (set_profiles name all_profiles)) (\<lambda>c6.
        bindE (or_changed c6 (set_policies name all_policies)) (\<lambda>c7.
        bindE (or_changed c7 (set_enabled_vlans name all_enabled_vlans)) (\<lambda>c8.
        bindE (or_changed c8 (set_rules name all_rules)) (\<lambda>c9.
        bindE (or_changed c9
                 (set_default_persistence_profiles name default_persistence_profile)) (\<lambda>c10.
        bindE (or_changed c10
                 (set_fallback_persistence_profile part name
                    (vp_fallback_persistence_profile p))) (\<lambda>c11.
        bindE (or_changed c11 (set_state name (vp_state p))) (\<lambda>c12.
        bindE (or_changed c12
                 (set_route_advertisement_state dest part
                    (vp_route_advertisement_state p))) (\<lambda>c13.
        bindE submit_transaction (\<lambda>_.
        returnE \<lparr>changed = c13, deleted = None\<rparr>))))))))))))))))
       (\<lambda>e. raiseE (PyException (''Error on updating Virtual Server : '' @ exn_str e)))"

text \<open>The body of the outer \<open>try\<close>. \<open>Inr (Inl msg)\<close> is a \<open>fail_json\<close> called inside it
  (it leaves the module at once and is not an \<open>Exception\<close>).\<close>

definition vs_main_try :: "bool \<Rightarrow> vs_params \<Rightarrow> int option \<Rightarrow> (string + vs_result) vs_prog" where
  "vs_main_try check_mode p prt =
     (let part = vp_partition p;
          name = the (fq_name part (Some (vp_name p)));
          dest = vp_destination p;
          all_profiles = fq_list_names part (vp_all_profiles p);
          all_policies = fq_list_names part (vp_all_policies p);
          all_rules = fq_list_names part (vp_all_rules p);
          enabled_vlans = vp_enabled_vlans p;
          all_enabled_vlans =
            (if enabled_vlans = None \<or> ''ALL'' \<in> set (the enabled_vlans)
             then enabled_vlans else fq_list_names part enabled_vlans);
          pool = fq_name part (vp_pool p);
          default_persistence_profile = fq_name part (vp_default_persistence_profile p)
      in
      if vp_state p = ''absent''
      then bindE (vs_absent_branch check_mode name) (\<lambda>r. returnE (Inr r))
      else
        bindE (vs_exists name) (\<lambda>ex.
          if \<not> ex then
            (if (dest = None \<or> dest = Some []) \<or> prt = None
             then returnE (Inl ''both destination and port must be supplied to create a VS'')
             else if \<not> check_mode
             then bindE (vs_create_steps name part dest (the prt) pool p all_profiles
                           all_policies all_rules all_enabled_vlans
                           default_persistence_profile)
                    (\<lambda>r. returnE (Inr r))
             else returnE (Inr \<lparr>changed = True, deleted = None\<rparr>))
          else
            (if \<not> check_mode
             then bindE (vs_update_steps name part dest prt pool p all_profiles
                           all_policies all_rules all_enabled_vlans
                           default_persistence_profile)
                    (\<lambda>r. returnE (Inr r))
             else returnE (Inr \<lparr>changed = True, deleted = None\<rparr>))))"

text \<open>\<open>main\<close>, from the parameters the module was called with (the connection to the device
  is taken as made). \<open>port\<close> arrives as a string and goes through \<open>int\<close> before the
  range check.\<close>

definition vs_main :: "bool \<Rightarrow> vs_params \<Rightarrow> vs_device \<Rightarrow> vs_outcome \<times> vs_device" where
  "vs_main check_mode p d =
     (case (if vp_port p = Some [] \<or> vp_port p = None then Inr None
            else (case py_int (the (vp_port p)) of
                    None \<Rightarrow> Inl (ValueError (the (vp_port p)))
                  | Some i \<Rightarrow> Inr (Some i))) of
        Inl e \<Rightarrow> (Uncaught e, d)
      | Inr prt \<Rightarrow>
          if port_out_of_range prt
          then (FailJson ''valid ports must be in range 0 - 65535'', d)
          else (case vs_main_try check_mode p prt d of
                  (Inl e, d') \<Rightarrow> (FailJson (''received exception: '' @ exn_str e), d')
                | (Inr (Inl msg), d') \<Rightarrow> (FailJson msg, d')
                | (Inr (Inr r), d') \<Rightarrow> (ExitJson r, d')))"

section \<open>The node module (\<open>bigip_node.py\<close>)\<close>

subsection \<open>The two regular expressions\<close>

text \<open>
  The module reads the device's monitor expression with two regular expressions. Their
  character classes are \<open>\w\<close> (letters, digits, underscore), \<open>\s\<close> (whitespace) and
  \<open>\d\<close> (digits), here over ASCII. In both patterns every repetition is followed by something
  its own class excludes, so the greedy match is the only one and no backtracking changes
  the result.
\<close>

definition is_word_char :: "char \<Rightarrow> bool" where
  "is_word_char c =
     (c \<in> set ''abcdefghijklmnopqrstuvwxyzABCDEFGHIJKLMNOPQRSTUVWXYZ0123456789_'')"

definition is_name_char :: "char \<Rightarrow> bool" where
  "is_name_char c = (\<not> is_space c \<and> c \<noteq> CHR ''}'')"

text \<open>\<open>/\w+/[^\s}]+\<close> matched at the start of a string: the text matched, if any.\<close>

definition match_monitor :: "string \<Rightarrow> string option" where
  "match_monitor s =
     (case s of
        [] \<Rightarrow> None
      | c # r \<Rightarrow>
          if c \<noteq> CHR ''/'' then None
          else (let w = takeWhile is_word_char r; r1 = dropWhile is_word_char r in
                if w = [] then None
                else (case r1 of
                        [] \<Rightarrow> None
                      | c1 # r2 \<Rightarrow>
                          if c1 \<noteq> CHR ''/'' then None
                          else (let n = takeWhile is_name_char r2 in
                                if n = [] then None
                                else Some (CHR ''/'' # w @ CHR ''/'' # n)))))"

text \<open>\<open>re.findall\<close> of that pattern: the matches from left to right, each search resuming
  where the last match ended (\<open>k\<close> counts the characters of a match still to be skipped).\<close>

fun findall_monitors :: "nat \<Rightarrow> string \<Rightarrow> string list" where
  "findall_monitors k [] = []"
| "findall_monitors k (c # cs) =
     (if k > 0 then findall_monitors (k - 1) cs
      else (case match_monitor (c # cs) of
              Some m \<Rightarrow> m # findall_monitors (length m - 1) cs
            | None \<Rightarrow> findall_monitors 0 cs))"

text \<open>\<open>min\s+(?P<quorum>\d+)\s+of\<close> matched at the start of a string: the group
  \<open>quorum\<close>, if the pattern matches.\<close>

definition match_min_of :: "string \<Rightarrow> string option" where
  "match_min_of s =
     (if \<not> startswith s ''min'' then None
      else (let r = drop 3 s;
                ws1 = takeWhile is_space r; r1 = dropWhile is_space r;
                ds = takeWhile is_digit r1; r2 = dropWhile is_digit r1;
                ws2 = takeWhile is_space r2; r3 = dropWhile is_space r2
            in if ws1 \<noteq> [] \<and> ds \<noteq> [] \<and> ws2 \<noteq> [] \<and> startswith r3 ''of''
               then Some ds else None))"

text \<open>\<open>re.search\<close> of that pattern: the first position where it matches.\<close>

fun search_min_of :: "string \<Rightarrow> string option" where
  "search_min_of [] = None"
| "search_min_of (c # cs) =
     (case match_min_of (c # cs) of
        Some q \<Rightarrow> Some q
      | None \<Rightarrow> search_min_of cs)"

fun py_join :: "string \<Rightarrow> string list \<Rightarrow> string" where
  "py_join sep [] = []"
| "py_join sep [x] = x"
| "py_join sep (x # y # ys) = x @ sep @ py_join sep (y # ys)"

subsection \<open>Parameters\<close>

text \<open>
  \<open>Parameters\<close> keeps its values in a dictionary that answers \<open>None\<close> for a missing key;
  here a record of optional fields, one for each key the module stores. \<open>monitors\<close> holds
  a list when it comes from the caller and the expression string when it comes from the
  device; \<open>fqdn\<close> holds a name, or the dictionary the property \<open>fqdn\<close> builds around a value.
\<close>

datatype monval = MonStr string | MonList "string list"

datatype fqdn_val = FqdnStr string | FqdnDict fqdn_val

record params =
  p_name :: "string option"
  p_partition :: "string option"
  p_kind :: "string option"
  p_monitors :: "monval option"
  p_monitor_type :: "string option"
  p_quorum :: "int option"
  p_description :: "string option"
  p_address :: "string option"
  p_fqdn :: "fqdn_val option"
  p_session :: "string option"
  p_state :: "string option"
  p_is_offline :: "bool option"

definition empty_params :: params where
  "empty_params =
     \<lparr>p_name = None, p_partition = None, p_kind = None, p_monitors = None,
      p_monitor_type = None, p_quorum = None, p_description = None, p_address = None,
      p_fqdn = None, p_session = None, p_state = None, p_is_offline = None\<rparr>"

text \<open>
  Modelled from the spec: the base class \<open>AnsibleF5Parameters\<close> of
  \<open>ansible.module_utils.f5_utils\<close>, which is not under src/. An attribute that is not a
  property is looked up in the values (\<open>None\<close> when unset), \<open>_filter_params\<close> drops the
  entries that are \<open>None\<close>, and the partition defaults to \<open>Common\<close> (the module's
  documented default), surrounding slashes removed.
\<close>

definition strip_slashes :: "string \<Rightarrow> string" where
  "strip_slashes s =
     rev (dropWhile (\<lambda>c. c = CHR ''/'') (rev (dropWhile (\<lambda>c. c = CHR ''/'') s)))"

definition partition_of :: "params \<Rightarrow> string" where
  "partition_of p = (case p_partition p of None \<Rightarrow> ''Common'' | Some x \<Rightarrow> strip_slashes x)"

definition fqdn_name :: "params \<Rightarrow> string \<Rightarrow> string" where
  "fqdn_name p v = (if \<not> startswith v ''/'' then ''/'' @ partition_of p @ ''/'' @ v else v)"

text \<open>\<open>monitors_list\<close>: on a string the matches of the pattern; on a list \<open>re.findall\<close>
  raises, the \<open>except\<close> catches it and the list itself is returned.\<close>

definition monitors_list :: "params \<Rightarrow> string list" where
  "monitors_list p =
     (case p_monitors p of
        None \<Rightarrow> []
      | Some (MonStr s) \<Rightarrow> findall_monitors 0 s
      | Some (MonList l) \<Rightarrow> l)"

text \<open>\<open>quorum\<close>. The value stored under \<open>quorum\<close> is an integer (the argument is declared
  \<open>type='int'\<close>), so the conversion of the last lines cannot fail on it, nor on the digits
  the pattern has matched. \<open>re.search\<close> on a list raises \<open>TypeError\<close>.\<close>

definition quorum :: "params \<Rightarrow> exn + int option" where
  "quorum p =
     (if p_kind p = Some ''tm:ltm:pool:poolstate'' then
        (case p_monitors p of
           None \<Rightarrow> Inr None
         | Some (MonList l) \<Rightarrow> Inl (TypeError ''expected string or buffer'')
         | Some (MonStr s) \<Rightarrow>
             (case search_min_of s of
                Some q \<Rightarrow> Inr (Some (int (digits_to_nat q)))
              | None \<Rightarrow> Inr None))
      else Inr (p_quorum p))"

definition monitor_type :: "params \<Rightarrow> exn + string option" where
  "monitor_type p =
     (if p_kind p = Some ''tm:ltm:node:nodestate'' then
        (case p_monitors p of
           None \<Rightarrow> Inr None
         | Some (MonList l) \<Rightarrow> Inl (TypeError ''expected string or buffer'')
         | Some (MonStr s) \<Rightarrow>
             (case search_min_of s of
                Some q \<Rightarrow> Inr (Some ''m_of_n'')
              | None \<Rightarrow> Inr (Some ''and_list'')))
      else Inr (p_monitor_type p))"

text \<open>\<open>'%s' % quorum\<close>.\<close>

definition str_quorum :: "int option \<Rightarrow> string" where
  "str_quorum q = (case q of None \<Rightarrow> ''None'' | Some i \<Rightarrow> py_str_int i)"

definition bindR :: "'e + 'a \<Rightarrow> ('a \<Rightarrow> 'e + 'b) \<Rightarrow> 'e + 'b" where
  "bindR m f = (case m of Inl e \<Rightarrow> Inl e | Inr a \<Rightarrow> f a)"

definition monitors :: "params \<Rightarrow> exn + string option" where
  "monitors p =
     (case p_monitors p of
        None \<Rightarrow> Inr None
      | Some v \<Rightarrow>
          (let ms = map (fqdn_name p) (monitors_list p) in
           bindR (monitor_type p) (\<lambda>mt.
             if mt = Some ''m_of_n''
             then bindR (quorum p) (\<lambda>q.
                    Inr (Some (''min '' @ str_quorum q @ '' of { '' @ py_join '' '' ms @ '' }'')))
             else Inr (Some (py_strip (py_join '' and '' ms))))))"

definition fqdn :: "params \<Rightarrow> fqdn_val option" where
  "fqdn p = (case p_fqdn p of None \<Rightarrow> None | Some v \<Rightarrow> Some (FqdnDict v))"

text \<open>What a call transmits: the attributes of \<open>api_attributes\<close>, those that are \<open>None\<close>
  left out.\<close>

record payload =
  pl_monitor :: "string option"
  pl_description :: "string option"
  pl_address :: "string option"
  pl_fqdn :: "fqdn_val option"
  pl_session :: "string option"
  pl_state :: "string option"

definition api_params :: "params \<Rightarrow> exn + payload" where
  "api_params p =
     bindR (monitors p) (\<lambda>m.
       Inr \<lparr>pl_monitor = m, pl_description = p_description p, pl_address = p_address p,
            pl_fqdn = fqdn p, pl_session = p_session p, pl_state = p_state p\<rparr>)"

text \<open>What the module returns besides \<open>changed\<close>: the \<open>returnables\<close> of the changes. An
  exception while they are collected ends the collection with what was collected.\<close>

record returned =
  r_monitor_type :: "string option"
  r_quorum :: "int option"
  r_monitors :: "string option"
  r_description :: "string option"
  r_fqdn :: "fqdn_val option"
  r_session :: "string option"
  r_state :: "string option"

definition no_returned :: returned where
  "no_returned =
     \<lparr>r_monitor_type = None, r_quorum = None, r_monitors = None, r_description = None,
      r_fqdn = None, r_session = None, r_state = None\<rparr>"

definition to_return :: "params \<Rightarrow> returned" where
  "to_return p =
     (case monitor_type p of
        Inl e \<Rightarrow> no_returned
      | Inr mt \<Rightarrow>
          (case quorum p of
             Inl e \<Rightarrow> no_returned\<lparr>r_monitor_type := mt\<rparr>
           | Inr q \<Rightarrow>
               (case monitors p of
                  Inl e \<Rightarrow> no_returned\<lparr>r_monitor_type := mt, r_quorum := q\<rparr>
                | Inr m \<Rightarrow>
                    \<lparr>r_monitor_type = mt, r_quorum = q, r_monitors = m,
                     r_description = p_description p, r_fqdn = fqdn p,
                     r_session = p_session p, r_state = p_state p\<rparr>)))"

subsection \<open>Difference\<close>

text \<open>The comparisons of \<open>Difference\<close> read the observed parameters \<open>have\<close> and read and
  update the desired parameters \<open>want\<close>, which is the state threaded through them.\<close>

type_synonym 'a want_prog = "params \<Rightarrow> (exn + 'a) \<times> params"

definition getW :: "(params \<Rightarrow> exn + 'a) \<Rightarrow> 'a want_prog" where
  "getW f w = (f w, w)"

definition updW :: "(params \<Rightarrow> params) \<Rightarrow> unit want_prog" where
  "updW f w = (Inr (), f w)"

definition diff_monitor_type :: "params \<Rightarrow> (string option) want_prog" where
  "diff_monitor_type have =
     bindE (getW monitor_type) (\<lambda>mt0.
     bindE (if mt0 = None
            then bindE (liftE (monitor_type have)) (\<lambda>h. updW (\<lambda>w. w\<lparr>p_monitor_type := h\<rparr>))
            else returnE ()) (\<lambda>_.
     bindE (getW quorum) (\<lambda>q0.
     bindE (if q0 = None
            then bindE (liftE (quorum have)) (\<lambda>h. updW (\<lambda>w. w\<lparr>p_quorum := h\<rparr>))
            else returnE ()) (\<lambda>_.
     bindE (getW monitor_type) (\<lambda>mt.
     bindE (if mt = Some ''m_of_n'' then getW quorum else returnE None) (\<lambda>q.
     bindE (if mt = Some ''m_of_n'' \<and> q = None
            then raiseE (F5ModuleError
                   ''Quorum value must be specified with monitor_type 'm_of_n'.'')
            else if mt = Some ''single''
            then bindE (getW (\<lambda>w. Inr (monitors_list w))) (\<lambda>wl.
                   if length wl > 1
                   then raiseE (F5ModuleError
                          ''When using a 'monitor_type' of 'single', only one monitor may be provided.'')
                   else if length (monitors_list have) > 1 \<and> length wl = 0
                   then raiseE (F5ModuleError
                          ''A single monitor must be specified if more than one monitor currently exists on your pool.'')
                   else updW (\<lambda>w. w\<lparr>p_monitor_type := Some ''and_list''\<rparr>))
            else returnE ()) (\<lambda>_.
     bindE (getW monitor_type) (\<lambda>wmt.
     bindE (liftE (monitor_type have)) (\<lambda>hmt.
       if wmt \<noteq> hmt then returnE wmt else returnE None)))))))))"

text \<open>\<open>__default\<close>, for the three parameters it is used on.\<close>

definition default_quorum :: "params \<Rightarrow> (int option) want_prog" where
  "default_quorum have =
     bindE (getW quorum) (\<lambda>attr1.
     bindE (liftE (quorum have)) (\<lambda>attr2.
       if attr1 \<noteq> attr2 then returnE attr1 else returnE None))"

definition default_description :: "params \<Rightarrow> (string option) want_prog" where
  "default_description have =
     bindE (getW (\<lambda>w. Inr (p_description w))) (\<lambda>attr1.
       if attr1 \<noteq> p_description have then returnE attr1 else returnE None)"

definition default_monitors :: "params \<Rightarrow> (string option) want_prog" where
  "default_monitors have =
     bindE (getW monitors) (\<lambda>attr1.
     bindE (liftE (monitors have)) (\<lambda>attr2.
       if attr1 \<noteq> attr2 then returnE attr1 else returnE None))"

text \<open>The property \<open>monitors\<close> of \<open>Difference\<close>. \<open>Parameters.monitors\<close> has no setter, so
  the assignment to \<open>self.want.monitors\<close> raises \<open>AttributeError\<close>.\<close>

definition diff_monitors :: "params \<Rightarrow> (string option) want_prog" where
  "diff_monitors have =
     bindE (getW monitor_type) (\<lambda>mt0.
     bindE (if mt0 = None
            then bindE (liftE (monitor_type have)) (\<lambda>h. updW (\<lambda>w. w\<lparr>p_monitor_type := h\<rparr>))
            else returnE ()) (\<lambda>_.
     bindE (getW (\<lambda>w. Inr (monitors_list w))) (\<lambda>wl.
     bindE (if wl = [] then raiseE (AttributeError ''can't set attribute'') else returnE ()) (\<lambda>_.
     bindE (getW monitors) (\<lambda>wm.
     bindE (if wm = None \<or> wm = Some [] then getW monitor_type else returnE None) (\<lambda>mt.
     bindE (if (wm = None \<or> wm = Some []) \<and> mt \<noteq> None
            then raiseE (F5ModuleError
                   ''The 'monitors' parameter cannot be empty when 'monitor_type' parameter is specified'')
            else returnE ()) (\<lambda>_.
     bindE (getW monitors) (\<lambda>wm1.
     bindE (liftE (monitors have)) (\<lambda>hm.
       if wm1 \<noteq> hm then returnE wm1 else returnE None)))))))))"

text \<open>The property \<open>state\<close> of \<open>Difference\<close>: the pair \<open>(session, state)\<close> to write, if any.\<close>

definition diff_state :: "params \<Rightarrow> params \<Rightarrow> (string \<times> string) option" where
  "diff_state have want =
     (if p_state want = Some ''present'' \<or> p_state want = Some ''enabled'' then
        (if p_session have \<noteq> Some ''user-enabled''
         then Some (''user-enabled'', ''user-up'') else None)
      else if p_state want = Some ''disabled'' then
        (if p_session have \<noteq> Some ''user-disabled'' \<or> p_state have = Some ''user-down''
         then Some (''user-disabled'', ''user-up'') else None)
      else if p_state want = Some ''offline'' then
        (if p_state have \<noteq> Some ''user-down''
         then Some (''user-disabled'', ''user-down'') else None)
      else None)"

fun is_AttributeError :: "exn \<Rightarrow> bool" where
  "is_AttributeError (AttributeError m) = True"
| "is_AttributeError e = False"

text \<open>\<open>compare\<close>: the property of that name if \<open>Difference\<close> has one, else \<open>__default\<close>;
  and \<open>__default\<close> again when the property raises \<open>AttributeError\<close>.\<close>

definition compare_monitor_type :: "params \<Rightarrow> (string option) want_prog" where
  "compare_monitor_type have =
     catchE (diff_monitor_type have)
       (\<lambda>e. if is_AttributeError e
            then bindE (getW monitor_type) (\<lambda>attr1.
                 bindE (liftE (monitor_type have)) (\<lambda>attr2.
                   if attr1 \<noteq> attr2 then returnE attr1 else returnE None))
            else raiseE e)"

definition compare_monitors :: "params \<Rightarrow> (string option) want_prog" where
  "compare_monitors have =
     catchE (diff_monitors have)
       (\<lambda>e. if is_AttributeError e then default_monitors have else raiseE e)"

subsection \<open>The device and the module manager\<close>

datatype node_op = NodeExists | NodeLoad | NodeCreate | NodeModify | NodeDelete | NodeRefresh

text \<open>A mutating call as it is issued: \<open>create\<close> with name, partition and attributes,
  \<open>modify\<close> with the attributes to change, \<open>delete\<close>.\<close>

datatype node_call =
    CallNodeCreate "string option" string payload
  | CallNodeModify payload
  | CallNodeDelete

text \<open>
  The device, as far as one pass of the module sees it: the node of the given name (\<open>None\<close>
  if there is none, else the attributes a \<open>load\<close> returns), \<open>nd_fqdn_checks\<close>: how many more
  refreshes show a newly created node in state \<open>fqdn-checking\<close> (\<open>None\<close>: all of them), the
  mutating calls issued so far, and \<open>nd_faults\<close>: the operations that fail on this device, each
  with the text of the \<open>iControlUnexpectedHTTPError\<close> it raises, which is an \<open>IOError\<close>.
\<close>

record node_device =
  nd_node :: "params option"
  nd_fqdn_checks :: "nat option"
  nd_calls :: "node_call list"
  nd_faults :: "(node_op \<times> string) list"

record mm =
  mm_want :: params
  mm_have :: "params option"
  mm_changes :: params
  mm_dev :: node_device

type_synonym 'a mm_prog = "mm \<Rightarrow> (exn + 'a) \<times> mm"

definition node_not_found_msg :: string where
  "node_not_found_msg = ''404 Unexpected Error: Not Found: The requested Node was not found.''"

definition node_conflict_msg :: string where
  "node_conflict_msg = ''409 Unexpected Error: Conflict: The requested Node already exists in partition.''"

definition exists_on_device :: "bool mm_prog" where
  "exists_on_device m =
     (case map_of (nd_faults (mm_dev m)) NodeExists of
        Some msg \<Rightarrow> (Inl (IOError msg), m)
      | None \<Rightarrow> (Inr (nd_node (mm_dev m) \<noteq> None), m))"

definition node_load :: "params mm_prog" where
  "node_load m =
     (case map_of (nd_faults (mm_dev m)) NodeLoad of
        Some msg \<Rightarrow> (Inl (IOError msg), m)
      | None \<Rightarrow>
          (case nd_node (mm_dev m) of
             None \<Rightarrow> (Inl (IOError node_not_found_msg), m)
           | Some attrs \<Rightarrow> (Inr attrs, m)))"

text \<open>The device's side of \<open>modify\<close>: the attributes transmitted replace the stored ones.\<close>

definition apply_payload :: "payload \<Rightarrow> params \<Rightarrow> params" where
  "apply_payload pl n =
     n\<lparr>p_monitors := (case pl_monitor pl of None \<Rightarrow> p_monitors n | Some s \<Rightarrow> Some (MonStr s)),
       p_description := (case pl_description pl of None \<Rightarrow> p_description n | Some s \<Rightarrow> Some s),
       p_address := (case pl_address pl of None \<Rightarrow> p_address n | Some s \<Rightarrow> Some s),
       p_fqdn := (case pl_fqdn pl of None \<Rightarrow> p_fqdn n | Some s \<Rightarrow> Some s),
       p_session := (case pl_session pl of None \<Rightarrow> p_session n | Some s \<Rightarrow> Some s),
       p_state := (case pl_state pl of None \<Rightarrow> p_state n | Some s \<Rightarrow> Some s)\<rparr>"

definition node_modify :: "payload \<Rightarrow> unit mm_prog" where
  "node_modify pl m =
     (let d = mm_dev m; d1 = d\<lparr>nd_calls := nd_calls d @ [CallNodeModify pl]\<rparr> in
      case map_of (nd_faults d) NodeModify of
        Some msg \<Rightarrow> (Inl (IOError msg), m\<lparr>mm_dev := d1\<rparr>)
      | None \<Rightarrow>
          (case nd_node d of
             None \<Rightarrow> (Inl (IOError node_not_found_msg), m\<lparr>mm_dev := d1\<rparr>)
           | Some n \<Rightarrow> (Inr (), m\<lparr>mm_dev := d1\<lparr>nd_node := Some (apply_payload pl n)\<rparr>\<rparr>)))"

definition node_delete :: "unit mm_prog" where
  "node_delete m =
     (let d = mm_dev m; d1 = d\<lparr>nd_calls := nd_calls d @ [CallNodeDelete]\<rparr> in
      case map_of (nd_faults d) NodeDelete of
        Some msg \<Rightarrow> (Inl (IOError msg), m\<lparr>mm_dev := d1\<rparr>)
      | None \<Rightarrow>
          (case nd_node d of
             None \<Rightarrow> (Inl (IOError node_not_found_msg), m\<lparr>mm_dev := d1\<rparr>)
           | Some n \<Rightarrow> (Inr (), m\<lparr>mm_dev := d1\<lparr>nd_node := None\<rparr>\<rparr>)))"

text \<open>The device's side of \<open>create\<close>: refused if set to fail or if the node is there already;
  otherwise the node exists afterwards with the attributes transmitted, except that a node
  cannot be created down: a transmitted state \<open>user-down\<close> does not take effect.\<close>

definition node_create :: "string option \<Rightarrow> string \<Rightarrow> payload \<Rightarrow> unit mm_prog" where
  "node_create name part pl m =
     (let d = mm_dev m; d1 = d\<lparr>nd_calls := nd_calls d @ [CallNodeCreate name part pl]\<rparr> in
      case map_of (nd_faults d) NodeCreate of
        Some msg \<Rightarrow> (Inl (IOError msg), m\<lparr>mm_dev := d1\<rparr>)
      | None \<Rightarrow>
          (case nd_node d of
             Some n \<Rightarrow> (Inl (IOError node_conflict_msg), m\<lparr>mm_dev := d1\<rparr>)
           | None \<Rightarrow>
               (Inr (),
                m\<lparr>mm_dev := d1\<lparr>nd_node :=
                     Some (apply_payload
                             (pl\<lparr>pl_state := (if pl_state pl = Some ''user-down''
                                               then Some ''unchecked'' else pl_state pl)\<rparr>)
                             (empty_params\<lparr>p_name := name, p_partition := Some part,
                                p_kind := Some ''tm:ltm:node:nodestate''\<rparr>))\<rparr>\<rparr>)))"

text \<open>What \<open>resource.state\<close> shows of a node just created, and \<open>resource.refresh()\<close>.\<close>

definition resource_state :: "node_device \<Rightarrow> string option" where
  "resource_state d =
     (if nd_fqdn_checks d = Some 0
      then (case nd_node d of None \<Rightarrow> None | Some n \<Rightarrow> p_state n)
      else Some ''fqdn-checking'')"

definition refreshed :: "node_device \<Rightarrow> node_device" where
  "refreshed d = d\<lparr>nd_fqdn_checks := map_option (\<lambda>n. n - 1) (nd_fqdn_checks d)\<rparr>"

text \<open>\<open>_wait_for_fqdn_checks\<close>: a loop that ends only when the device stops reporting
  \<open>fqdn-checking\<close>; \<open>None\<close> is the loop that never ends.\<close>

partial_function (option) wait_for_fqdn_checks ::
  "node_device \<Rightarrow> ((exn + unit) \<times> node_device) option" where
  "wait_for_fqdn_checks d =
     (if resource_state d = Some ''fqdn-checking''
      then (case map_of (nd_faults d) NodeRefresh of
              Some msg \<Rightarrow> Some (Inl (IOError msg), d)
            | None \<Rightarrow> wait_for_fqdn_checks (refreshed d))
      else Some (Inr (), d))"

declare wait_for_fqdn_checks.simps [code]

definition read_current_from_device :: "params mm_prog" where
  "read_current_from_device = node_load"

definition offline_payload :: payload where
  "offline_payload =
     \<lparr>pl_monitor = None, pl_description = None, pl_address = None, pl_fqdn = None,
      pl_session = Some ''user-disabled'', pl_state = Some ''user-down''\<rparr>"

definition update_node_offline_on_device :: "unit mm_prog" where
  "update_node_offline_on_device =
     bindE node_load (\<lambda>_. node_modify offline_payload)"

definition update_on_device :: "unit mm_prog" where
  "update_on_device =
     (\<lambda>m. bindE (liftE (api_params (mm_changes m)))
            (\<lambda>pl. bindE node_load (\<lambda>_. node_modify pl)) m)"

definition remove_from_device :: "unit mm_prog" where
  "remove_from_device = bindE node_load (\<lambda>_. node_delete)"

definition create_on_device :: "mm \<Rightarrow> ((exn + unit) \<times> mm) option" where
  "create_on_device m =
     (case api_params (mm_want m) of
        Inl e \<Rightarrow> Some (Inl e, m)
      | Inr pl \<Rightarrow>
          (case node_create (p_name (mm_want m)) (partition_of (mm_want m)) pl m of
             (Inl e, m1) \<Rightarrow> Some (Inl e, m1)
           | (Inr _, m1) \<Rightarrow>
               (case wait_for_fqdn_checks (mm_dev m1) of
                  None \<Rightarrow> None
                | Some (r, d) \<Rightarrow> Some (r, m1\<lparr>mm_dev := d\<rparr>))))"

definition updWant :: "(params \<Rightarrow> params) \<Rightarrow> unit mm_prog" where
  "updWant f m = (Inr (), m\<lparr>mm_want := f (mm_want m)\<rparr>)"

definition check_required_creation_vars :: "unit mm_prog" where
  "check_required_creation_vars m =
     (let want = mm_want m in
      if p_address want = None \<and> fqdn want = None
      then raiseE (F5ModuleError
             ''At least one of 'address' or 'fqdn' is required when creating a node'') m
      else if p_address want \<noteq> None \<and> fqdn want \<noteq> None
      then raiseE (F5ModuleError
             ''Only one of 'address' or 'fqdn' can be provided when creating a node'') m
      else if fqdn want \<noteq> None
      then updWant (\<lambda>w. w\<lparr>p_address := Some ''any6''\<rparr>) m
      else returnE () m)"

text \<open>\<open>_munge_creation_state_for_device\<close>. Its second test is \<open>self.want.state in 'disabled'\<close>,
  a substring test.\<close>

definition munge_creation_state_for_device :: "unit mm_prog" where
  "munge_creation_state_for_device m =
     (let want = mm_want m in
      if p_state want = Some ''present'' \<or> p_state want = Some ''enabled''
      then updWant (\<lambda>w. w\<lparr>p_session := Some ''user-enabled'', p_state := Some ''user-up''\<rparr>) m
      else (case p_state want of
              None \<Rightarrow> raiseE (TypeError
                        '''in <string>' requires string as left operand, not NoneType'') m
            | Some st \<Rightarrow>
                if py_in_str st ''disabled''
                then updWant (\<lambda>w. w\<lparr>p_session := Some ''user-disabled'',
                                     p_state := Some ''user-up''\<rparr>) m
                else updWant (\<lambda>w. w\<lparr>p_session := Some ''user-disabled'',
                                     p_state := Some ''user-down'',
                                     p_is_offline := Some True\<rparr>) m))"

text \<open>\<open>Changes(changed)\<close> for the dictionary \<open>changed\<close> the two functions below build.\<close>

definition changes_of ::
  "string option \<Rightarrow> int option \<Rightarrow> string option \<Rightarrow> string option \<Rightarrow> fqdn_val option
   \<Rightarrow> string option \<Rightarrow> string option \<Rightarrow> params" where
  "changes_of mt q ms descr fq sess st =
     empty_params\<lparr>p_monitor_type := mt, p_quorum := q, p_monitors := map_option MonStr ms,
       p_description := descr, p_fqdn := fq, p_session := sess, p_state := st\<rparr>"

definition set_changed_options :: "unit mm_prog" where
  "set_changed_options m =
     (let want = mm_want m in
      case monitor_type want of
        Inl e \<Rightarrow> (Inl e, m)
      | Inr mt \<Rightarrow>
          (case quorum want of
             Inl e \<Rightarrow> (Inl e, m)
           | Inr q \<Rightarrow>
               (case monitors want of
                  Inl e \<Rightarrow> (Inl e, m)
                | Inr ms \<Rightarrow>
                    if mt \<noteq> None \<or> q \<noteq> None \<or> ms \<noteq> None \<or> p_description want \<noteq> None
                       \<or> fqdn want \<noteq> None \<or> p_session want \<noteq> None \<or> p_state want \<noteq> None
                    then (Inr (),
                          m\<lparr>mm_changes :=
                              changes_of mt q ms (p_description want) (fqdn want)
                                (p_session want) (p_state want)\<rparr>)
                    else (Inr (), m))))"

text \<open>Running a comparison of \<open>Difference\<close> on the manager's \<open>want\<close>.\<close>

definition onWant :: "'a want_prog \<Rightarrow> 'a mm_prog" where
  "onWant f m = (case f (mm_want m) of (r, w) \<Rightarrow> (r, m\<lparr>mm_want := w\<rparr>))"

text \<open>\<open>_update_changed_options\<close>, over \<open>updatables\<close> in their order: \<open>monitor_type\<close>,
  \<open>quorum\<close>, \<open>monitors\<close>, \<open>description\<close>, \<open>state\<close>.\<close>

definition update_changed_options :: "params \<Rightarrow> bool mm_prog" where
  "update_changed_options have =
     bindE (onWant (compare_monitor_type have)) (\<lambda>c1.
     bindE (onWant (default_quorum have)) (\<lambda>c2.
     bindE (onWant (compare_monitors have)) (\<lambda>c3.
     bindE (onWant (default_description have)) (\<lambda>c4.
     bindE (onWant (getW (\<lambda>w. Inr (diff_state have w)))) (\<lambda>c5.
       if c1 \<noteq> None \<or> c2 \<noteq> None \<or> c3 \<noteq> None \<or> c4 \<noteq> None \<or> c5 \<noteq> None
       then (\<lambda>m. (Inr True,
                   m\<lparr>mm_changes :=
                       changes_of c1 c2 c3 c4 None (map_option fst c5) (map_option snd c5)\<rparr>))
       else returnE False)))))"

definition should_update :: "params \<Rightarrow> bool mm_prog" where
  "should_update have =
     bindE (update_changed_options have) (\<lambda>result.
       if result then returnE True else returnE False)"

text \<open>The manager's functions take \<open>check_mode\<close>, the client's flag, as an argument.\<close>

definition update :: "bool \<Rightarrow> bool mm_prog" where
  "update check_mode =
     bindE read_current_from_device (\<lambda>have.
     bindE (\<lambda>m. (Inr (), m\<lparr>mm_have := Some have\<rparr>)) (\<lambda>_.
     bindE (should_update have) (\<lambda>su.
       if \<not> su then returnE False
       else if check_mode then returnE True
       else bindE update_on_device (\<lambda>_.
            bindE (\<lambda>m'. if p_state (mm_want m') = Some ''offline''
                        then update_node_offline_on_device m'
                        else returnE () m') (\<lambda>_.
            returnE True)))))"

definition create_checked :: "bool mm_prog" where
  "create_checked =
     bindE exists_on_device (\<lambda>ex.
       if \<not> ex then raiseE (F5ModuleError ''Failed to create the node'')
       else bindE (\<lambda>m. if p_is_offline (mm_want m) = Some True
                       then update_node_offline_on_device m
                       else returnE () m) (\<lambda>_.
            returnE True))"

text \<open>\<open>create\<close>; \<open>create_checked\<close> above is what follows \<open>create_on_device\<close> in it.\<close>

definition create :: "bool \<Rightarrow> mm \<Rightarrow> ((exn + bool) \<times> mm) option" where
  "create check_mode m =
     (case bindE check_required_creation_vars (\<lambda>_.
           bindE munge_creation_state_for_device (\<lambda>_.
           set_changed_options)) m of
        (Inl e, m1) \<Rightarrow> Some (Inl e, m1)
      | (Inr _, m1) \<Rightarrow>
          if check_mode then Some (Inr True, m1)
          else (case create_on_device m1 of
                  None \<Rightarrow> None
                | Some (Inl e, m2) \<Rightarrow> Some (Inl e, m2)
                | Some (Inr _, m2) \<Rightarrow> Some (create_checked m2)))"

definition present :: "bool \<Rightarrow> mm \<Rightarrow> ((exn + bool) \<times> mm) option" where
  "present check_mode m =
     (case exists_on_device m of
        (Inl e, m1) \<Rightarrow> Some (Inl e, m1)
      | (Inr ex, m1) \<Rightarrow> if ex then Some (update check_mode m1) else create check_mode m1)"

definition remove :: "bool \<Rightarrow> bool mm_prog" where
  "remove check_mode =
     (if check_mode then returnE True
      else bindE remove_from_device (\<lambda>_.
           bindE exists_on_device (\<lambda>ex.
             if ex then raiseE (F5ModuleError ''Failed to delete the node.'')
             else returnE True)))"

definition absent :: "bool \<Rightarrow> bool mm_prog" where
  "absent check_mode =
     bindE exists_on_device (\<lambda>ex. if ex then remove check_mode else returnE False)"

record node_result =
  nr_changed :: bool
  nr_changes :: returned

fun is_IOError :: "exn \<Rightarrow> bool" where
  "is_IOError (IOError m) = True"
| "is_IOError e = False"

definition exec_module :: "bool \<Rightarrow> mm \<Rightarrow> ((exn + node_result) \<times> mm) option" where
  "exec_module check_mode m =
     (let state = p_state (mm_want m) in
      case (if state \<in> set [Some ''present'', Some ''enabled'', Some ''disabled'', Some ''offline'']
            then present check_mode m
            else if state = Some ''absent'' then Some (absent check_mode m)
            else Some (Inr False, m)) of
        None \<Rightarrow> None
      | Some (Inl e, m1) \<Rightarrow>
          if is_IOError e then Some (Inl (F5ModuleError (exn_str e)), m1)
          else Some (Inl e, m1)
      | Some (Inr chg, m1) \<Rightarrow>
          Some (Inr \<lparr>nr_changed = chg, nr_changes = to_return (mm_changes m1)\<rparr>, m1))"

datatype node_outcome = NodeExitJson node_result | NodeFailJson string | NodeUncaught exn

text \<open>\<open>main\<close>, from the parameters the module was called with (the two libraries found, the
  connection taken as made): the manager starts with no \<open>have\<close> and empty changes.\<close>

definition node_main ::
  "bool \<Rightarrow> params \<Rightarrow> node_device \<Rightarrow> (node_outcome \<times> node_device) option" where
  "node_main check_mode p d =
     (case exec_module check_mode
             \<lparr>mm_want = p, mm_have = None, mm_changes = empty_params, mm_dev = d\<rparr> of
        None \<Rightarrow> None
      | Some (Inr r, m) \<Rightarrow> Some (NodeExitJson r, mm_dev m)
      | Some (Inl e, m) \<Rightarrow>
          (case e of
             F5ModuleError msg \<Rightarrow> Some (NodeFailJson msg, mm_dev m)
           | _ \<Rightarrow> Some (NodeUncaught e, mm_dev m)))"

section \<open>Sample inputs and auxiliary definitions\<close>

text \<open>A device used to run the module on: a virtual server with two profiles and one
  policy, open to all VLANs, and no operation set to fail.\<close>

definition sample_vs :: vs_device where
  "sample_vs =
     \<lparr>vs_present = True,
      vs_destination = \<lparr>address = ''/Common/10.0.0.5'', port = 443\<rparr>,
      vs_pool = ''/Common/pool1'',
      vs_description = ''web'',
      vs_snat_type = ''SRC_TRANS_NONE'',
      vs_snat_pool = [],
      vs_profiles = [\<lparr>profile_context = ''PROFILE_CONTEXT_TYPE_ALL'', profile_name = ''/Common/tcp''\<rparr>,
                     \<lparr>profile_context = ''PROFILE_CONTEXT_TYPE_ALL'', profile_name = ''/Common/http''\<rparr>],
      vs_policies = [''/Common/pol1''],
      vs_vlan = \<lparr>vlan_state = \<lparr>content = ''STATE_DISABLED'', interned = False\<rparr>, vlans = []\<rparr>,
      vs_rules = [],
      vs_persistence = [],
      vs_fallback_persistence = [],
      vs_enabled_state = ''STATE_ENABLED'',
      vs_route_advertisement = [''STATE_DISABLED''],
      vs_calls = [],
      vs_faults = []\<rparr>"

text \<open>Parameters of a pass of the virtual-server module: removal of \<open>vs1\<close>, and
  creation or update of \<open>vs1\<close> at \<open>10.0.0.5:443\<close>.\<close>

definition absent_params :: vs_params where
  "absent_params =
     \<lparr>vp_state = ''absent'', vp_partition = ''Common'', vp_name = ''vs1'',
      vp_destination = None, vp_port = None, vp_all_policies = None, vp_all_profiles = None,
      vp_all_rules = None, vp_enabled_vlans = None, vp_pool = None, vp_description = None,
      vp_snat = None, vp_route_advertisement_state = None,
      vp_default_persistence_profile = None, vp_fallback_persistence_profile = None\<rparr>"

definition present_params :: vs_params where
  "present_params =
     absent_params\<lparr>vp_state := ''present'', vp_destination := Some ''10.0.0.5'',
       vp_port := Some ''443''\<rparr>"

definition already_exists_msg :: string where
  "already_exists_msg =
     ''01020066:3: The requested Virtual Server (/Common/vs1) already exists in partition Common.''"

text \<open>Parameters of a pass of the node module, and two devices: one without the node, one
  with it.\<close>

definition node1 :: params where
  "node1 =
     empty_params\<lparr>p_name := Some ''node1'', p_partition := Some ''Common'',
       p_address := Some ''10.0.0.1'', p_state := Some ''present''\<rparr>"

definition no_node :: node_device where
  "no_node = \<lparr>nd_node = None, nd_fqdn_checks = Some 0, nd_calls = [], nd_faults = []\<rparr>"

definition with_node :: node_device where
  "with_node =
     \<lparr>nd_node = Some (empty_params\<lparr>p_name := Some ''node1'', p_partition := Some ''Common'',
                        p_kind := Some ''tm:ltm:node:nodestate'',
                        p_monitors := Some (MonStr ''/Common/icmp and /Common/tcp''),
                        p_address := Some ''10.0.0.1'', p_session := Some ''user-enabled'',
                        p_state := Some ''up''\<rparr>),
      nd_fqdn_checks = Some 0, nd_calls = [], nd_faults = []\<rparr>"

text \<open>What \<open>_munge_creation_state_for_device\<close> and \<open>_check_required_creation_vars\<close> make
  of desired parameters whose state is \<open>offline\<close>.\<close>

definition offline_want :: "params \<Rightarrow> params" where
  "offline_want w =
     w\<lparr>p_address := (if p_fqdn w \<noteq> None then Some ''any6'' else p_address w),
       p_session := Some ''user-disabled'', p_state := Some ''user-down'',
       p_is_offline := Some True\<rparr>"





definition start_mm :: "params \<Rightarrow> node_device \<Rightarrow> mm" where
  "start_mm p d = \<lparr>mm_want = p, mm_have = None, mm_changes = empty_params, mm_dev = d\<rparr>"

text \<open>For the round trip of the monitor expression: a monitor name the first pattern
  matches from its first to its last character; desired parameters with a monitor list, and
  the parameters read from a node whose monitor expression is \<open>s\<close>.\<close>

definition is_monitor_name :: "string \<Rightarrow> bool" where
  "is_monitor_name n = (match_monitor n = Some n)"

definition desired_monitors :: "string \<Rightarrow> int option \<Rightarrow> string list \<Rightarrow> params" where
  "desired_monitors mt q M =
     empty_params\<lparr>p_monitors := Some (MonList M), p_monitor_type := Some mt, p_quorum := q\<rparr>"

definition observed_node :: "string \<Rightarrow> params" where
  "observed_node s =
     empty_params\<lparr>p_kind := Some ''tm:ltm:node:nodestate'', p_monitors := Some (MonStr s)\<rparr>"

text \<open>A whitespace character directly followed by a digit, somewhere in the string.\<close>

fun has_space_digit :: "string \<Rightarrow> bool" where
  "has_space_digit (a # b # r) = ((is_space a \<and> is_digit b) \<or> has_space_digit (b # r))"
| "has_space_digit [a] = False"
| "has_space_digit [] = False"






section \<open>Properties of the virtual-server module\<close>

lemmas monad_defs = returnE_def raiseE_def liftE_def bindE_def catchE_def

subsection \<open>List reconciliation of profiles and policies\<close>

lemma to_add_profiles_set:
  "set (map profile_name (to_add_profiles Ld Lo)) = set Ld - set Lo"
  by (auto simp: to_add_profiles_def)

lemma to_del_profiles_set:
  "set (map profile_name (to_del_profiles Ld Lo)) = set Lo - set Ld - {''/Common/tcp''}"
  by (auto simp: to_del_profiles_def)

lemma to_add_policies_set: "set (to_add_policies Ld Lo) = set Ld - set Lo"
  by (auto simp: to_add_policies_def)

lemma to_del_policies_set: "set (to_del_policies Ld Lo) = set Lo - set Ld"
  by (auto simp: to_del_policies_def)

lemma set_profiles_calls:
  assumes "vs_present d"
    and "map_of (vs_faults d) GetProfile = None"
    and "map_of (vs_faults d) RemoveProfile = None"
    and "map_of (vs_faults d) AddProfile = None"
  shows "vs_calls (snd (set_profiles name (Some Ld) d)) =
           vs_calls d
           @ (if to_del_profiles Ld (map profile_name (vs_profiles d)) = [] then []
              else [CallRemoveProfile (to_del_profiles Ld (map profile_name (vs_profiles d)))])
           @ (if to_add_profiles Ld (map profile_name (vs_profiles d)) = [] then []
              else [CallAddProfile (to_add_profiles Ld (map profile_name (vs_profiles d)))])"
  using assms
  by (simp add: set_profiles_def set_profiles_body_def get_profiles_def remove_profile_def
      add_profile_def vs_read_def vs_write_def monad_defs Let_def)

lemma set_profiles_nothing_to_do:
  assumes "vs_present d"
    and "map_of (vs_faults d) GetProfile = None"
    and "to_del_profiles Ld (map profile_name (vs_profiles d)) = []"
    and "to_add_profiles Ld (map profile_name (vs_profiles d)) = []"
  shows "set_profiles name (Some Ld) d =
           (if vs_profiles d = []
            then Inl (F5ModuleError ''Virtual servers must has at least one profile'')
            else Inr False, d)"
  using assms
  by (simp add: set_profiles_def set_profiles_body_def get_profiles_def
      vs_read_def monad_defs Let_def)

lemma set_profiles_unmanaged: "set_profiles name None d = (Inr False, d)"
  by (simp add: set_profiles_def monad_defs)

lemma set_policies_calls:
  assumes "vs_present d"
    and "map_of (vs_faults d) GetContentPolicy = None"
    and "map_of (vs_faults d) RemoveContentPolicy = None"
    and "map_of (vs_faults d) AddContentPolicy = None"
  shows "vs_calls (snd (set_policies name (Some Ld) d)) =
           vs_calls d
           @ (if to_del_policies Ld (vs_policies d) = [] then []
              else [CallRemoveContentPolicy (to_del_policies Ld (vs_policies d))])
           @ (if to_add_policies Ld (vs_policies d) = [] then []
              else [CallAddContentPolicy (to_add_policies Ld (vs_policies d))])"
  using assms
  by (simp add: set_policies_def set_policies_body_def get_policies_def remove_content_policy_def
      add_content_policy_def vs_read_def vs_write_def monad_defs Let_def)

lemma set_policies_nothing_to_do:
  assumes "vs_present d"
    and "map_of (vs_faults d) GetContentPolicy = None"
    and "to_del_policies Ld (vs_policies d) = []"
    and "to_add_policies Ld (vs_policies d) = []"
  shows "set_policies name (Some Ld) d = (Inr False, d)"
  using assms
  by (simp add: set_policies_def set_policies_body_def get_policies_def
      vs_read_def monad_defs Let_def)

text \<open>
  Claim C1, as the code has it. On an existing virtual server whose profile operations are
  not refused, with desired list \<open>Ld\<close> and observed list \<open>Lo\<close>: the profile reconciliation
  issues one removal of \<open>to_del\<close> (if not empty) and then one addition of \<open>to_add\<close> (if not
  empty) and no other mutating call, where as sets \<open>to_add = Ld - Lo\<close> and
  \<open>to_del = Lo - Ld\<close> without the protected \<open>/Common/tcp\<close>, which is never in \<open>to_del\<close>.
  When both are empty nothing is issued and the device is untouched; the property then
  reports unchanged if the device has at least one profile, and otherwise fails with the
  at-least-one-profile error of the final check. The policies follow the same contract with
  no protected member and no final check: both lists empty gives unchanged.
\<close>

theorem list_reconciliation:
  assumes "vs_present d"
    and "map_of (vs_faults d) GetProfile = None"
    and "map_of (vs_faults d) RemoveProfile = None"
    and "map_of (vs_faults d) AddProfile = None"
    and "map_of (vs_faults d) GetContentPolicy = None"
    and "map_of (vs_faults d) RemoveContentPolicy = None"
    and "map_of (vs_faults d) AddContentPolicy = None"
    and "Lo = map profile_name (vs_profiles d)"
    and "Po = vs_policies d"
  shows "vs_calls (snd (set_profiles name (Some Ld) d)) =
           vs_calls d
           @ (if to_del_profiles Ld Lo = [] then [] else [CallRemoveProfile (to_del_profiles Ld Lo)])
           @ (if to_add_profiles Ld Lo = [] then [] else [CallAddProfile (to_add_profiles Ld Lo)])
       \<and> set (map profile_name (to_add_profiles Ld Lo)) = set Ld - set Lo
       \<and> set (map profile_name (to_del_profiles Ld Lo)) = set Lo - set Ld - {''/Common/tcp''}
       \<and> ''/Common/tcp'' \<notin> set (map profile_name (to_del_profiles Ld Lo))
       \<and> (to_add_profiles Ld Lo = [] \<and> to_del_profiles Ld Lo = [] \<longrightarrow>
           set_profiles name (Some Ld) d =
             (if Lo = [] then Inl (F5ModuleError ''Virtual servers must has at least one profile'')
              else Inr False, d))
       \<and> vs_calls (snd (set_policies name (Some Pd) d)) =
           vs_calls d
           @ (if to_del_policies Pd Po = [] then [] else [CallRemoveContentPolicy (to_del_policies Pd Po)])
           @ (if to_add_policies Pd Po = [] then [] else [CallAddContentPolicy (to_add_policies Pd Po)])
       \<and> set (to_add_policies Pd Po) = set Pd - set Po
       \<and> set (to_del_policies Pd Po) = set Po - set Pd
       \<and> (to_add_policies Pd Po = [] \<and> to_del_policies Pd Po = [] \<longrightarrow>
           set_policies name (Some Pd) d = (Inr False, d))"
proof (intro conjI)
  show "vs_calls (snd (set_profiles name (Some Ld) d)) =
           vs_calls d
           @ (if to_del_profiles Ld Lo = [] then [] else [CallRemoveProfile (to_del_profiles Ld Lo)])
           @ (if to_add_profiles Ld Lo = [] then [] else [CallAddProfile (to_add_profiles Ld Lo)])"
    using assms(1-4) unfolding assms(8) by (rule set_profiles_calls)
  show "set (map profile_name (to_add_profiles Ld Lo)) = set Ld - set Lo"
    by (rule to_add_profiles_set)
  show del: "set (map profile_name (to_del_profiles Ld Lo)) = set Lo - set Ld - {''/Common/tcp''}"
    by (rule to_del_profiles_set)
  show "''/Common/tcp'' \<notin> set (map profile_name (to_del_profiles Ld Lo))"
    unfolding del by simp
  show "to_add_profiles Ld Lo = [] \<and> to_del_profiles Ld Lo = [] \<longrightarrow>
           set_profiles name (Some Ld) d =
             (if Lo = [] then Inl (F5ModuleError ''Virtual servers must has at least one profile'')
              else Inr False, d)"
    using set_profiles_nothing_to_do [OF assms(1,2), of Ld name] unfolding assms(8) by simp
  show "vs_calls (snd (set_policies name (Some Pd) d)) =
           vs_calls d
           @ (if to_del_policies Pd Po = [] then [] else [CallRemoveContentPolicy (to_del_policies Pd Po)])
           @ (if to_add_policies Pd Po = [] then [] else [CallAddContentPolicy (to_add_policies Pd Po)])"
    using assms(1,5-7) unfolding assms(9) by (rule set_policies_calls)
  show "set (to_add_policies Pd Po) = set Pd - set Po"
    by (rule to_add_policies_set)
  show "set (to_del_policies Pd Po) = set Po - set Pd"
    by (rule to_del_policies_set)
  show "to_add_policies Pd Po = [] \<and> to_del_policies Pd Po = [] \<longrightarrow>
           set_policies name (Some Pd) d = (Inr False, d)"
    using set_policies_nothing_to_do [OF assms(1,5), of Pd name] unfolding assms(9) by simp
qed

text \<open>The theorem at work: the sample server has profiles \<open>/Common/tcp\<close> and
  \<open>/Common/http\<close> and policy \<open>/Common/pol1\<close>; wanted are the profile
  \<open>/Common/clientssl\<close> alone and the policy \<open>/Common/pol2\<close> alone.\<close>

theorem list_reconciliation_witness:
  "vs_present sample_vs
   \<and> map_of (vs_faults sample_vs) GetProfile = None
   \<and> map_of (vs_faults sample_vs) RemoveProfile = None
   \<and> map_of (vs_faults sample_vs) AddProfile = None
   \<and> map_of (vs_faults sample_vs) GetContentPolicy = None
   \<and> map_of (vs_faults sample_vs) RemoveContentPolicy = None
   \<and> map_of (vs_faults sample_vs) AddContentPolicy = None
   \<and> vs_calls (snd (set_profiles ''/Common/vs1'' (Some [''/Common/clientssl'']) sample_vs)) =
       [CallRemoveProfile
          [\<lparr>profile_context = ''PROFILE_CONTEXT_TYPE_ALL'', profile_name = ''/Common/http''\<rparr>],
        CallAddProfile
          [\<lparr>profile_context = ''PROFILE_CONTEXT_TYPE_ALL'', profile_name = ''/Common/clientssl''\<rparr>]]
   \<and> vs_calls (snd (set_policies ''/Common/vs1'' (Some [''/Common/pol2'']) sample_vs)) =
       [CallRemoveContentPolicy [''/Common/pol1''], CallAddContentPolicy [''/Common/pol2'']]
   \<and> set_profiles ''/Common/vs1'' (Some [''/Common/http'', ''/Common/tcp'']) sample_vs =
       (Inr False, sample_vs)
   \<and> set_policies ''/Common/vs1'' (Some [''/Common/pol1'']) sample_vs = (Inr False, sample_vs)"
  using list_reconciliation [of sample_vs "map profile_name (vs_profiles sample_vs)"
      "vs_policies sample_vs" "''/Common/vs1''" "[''/Common/clientssl'']" "[''/Common/pol2'']"]
    list_reconciliation [of sample_vs "map profile_name (vs_profiles sample_vs)"
      "vs_policies sample_vs" "''/Common/vs1''" "[''/Common/http'', ''/Common/tcp'']"
      "[''/Common/pol1'']"]
  by (simp add: sample_vs_def to_add_profiles_def to_del_profiles_def
      to_add_policies_def to_del_policies_def)

text \<open>Claim C1 as stated fails where the final check of \<open>set_profiles\<close> strikes: with an
  empty desired list on a virtual server that has no profile, \<open>to_add\<close> and \<open>to_remove\<close>
  are both empty, and the property does not report unchanged but raises.\<close>

theorem profiles_unchanged_counterexample:
  "to_add_profiles [] (map profile_name (vs_profiles (sample_vs\<lparr>vs_profiles := []\<rparr>))) = []
   \<and> to_del_profiles [] (map profile_name (vs_profiles (sample_vs\<lparr>vs_profiles := []\<rparr>))) = []
   \<and> set_profiles ''/Common/vs1'' (Some []) (sample_vs\<lparr>vs_profiles := []\<rparr>) =
       (Inl (F5ModuleError ''Virtual servers must has at least one profile''),
        sample_vs\<lparr>vs_profiles := []\<rparr>)
   \<and> fst (set_profiles ''/Common/vs1'' (Some []) (sample_vs\<lparr>vs_profiles := []\<rparr>)) \<noteq> Inr False"
  by (simp add: set_profiles_def set_profiles_body_def get_profiles_def
      vs_read_def monad_defs Let_def sample_vs_def to_add_profiles_def to_del_profiles_def)

subsection \<open>The final check of the profile reconciliation\<close>

text \<open>
  Claim C10. For every desired list, \<open>set_profiles\<close> reads the profile list again after its
  removals and additions and raises the \<open>F5ModuleError\<close> if that list is empty: whenever it
  returns a value, the virtual server it leaves behind has at least one profile; and whenever
  it leaves a virtual server without a profile, it has raised. (With \<open>None\<close> in place of a list
  the property is not managed: lemma \<open>set_profiles_unmanaged\<close>.)
\<close>

theorem set_profiles_leaves_a_profile:
  "(set_profiles name (Some Ld) d = (Inr b, d') \<longrightarrow> vs_profiles d' \<noteq> [])
   \<and> (vs_profiles (snd (set_profiles name (Some Ld) d)) = []
        \<longrightarrow> (\<exists>e. fst (set_profiles name (Some Ld) d) = Inl e))"
  by (auto simp add: set_profiles_def set_profiles_body_def get_profiles_def remove_profile_def
      add_profile_def vs_read_def vs_write_def monad_defs Let_def
      split: if_splits option.splits sum.splits prod.splits)

theorem set_profiles_leaves_a_profile_witness:
  "set_profiles ''/Common/vs1'' (Some [''/Common/clientssl'']) sample_vs =
     (Inr True,
      sample_vs\<lparr>vs_profiles :=
                  [\<lparr>profile_context = ''PROFILE_CONTEXT_TYPE_ALL'', profile_name = ''/Common/tcp''\<rparr>,
                   \<lparr>profile_context = ''PROFILE_CONTEXT_TYPE_ALL'', profile_name = ''/Common/clientssl''\<rparr>],
                vs_calls :=
                  [CallRemoveProfile
                     [\<lparr>profile_context = ''PROFILE_CONTEXT_TYPE_ALL'', profile_name = ''/Common/http''\<rparr>],
                   CallAddProfile
                     [\<lparr>profile_context = ''PROFILE_CONTEXT_TYPE_ALL'', profile_name = ''/Common/clientssl''\<rparr>]]\<rparr>)
   \<and> vs_profiles (snd (set_profiles ''/Common/vs1'' (Some [''/Common/clientssl'']) sample_vs)) \<noteq> []
   \<and> fst (set_profiles ''/Common/vs1'' (Some [])
            (sample_vs\<lparr>vs_profiles :=
               [\<lparr>profile_context = ''PROFILE_CONTEXT_TYPE_ALL'', profile_name = ''/Common/http''\<rparr>]\<rparr>))
       = Inl (F5ModuleError ''Virtual servers must has at least one profile'')"
  using set_profiles_leaves_a_profile [of "''/Common/vs1''" "[''/Common/clientssl'']" sample_vs True
      "snd (set_profiles ''/Common/vs1'' (Some [''/Common/clientssl'']) sample_vs)"]
  by (simp add: set_profiles_def set_profiles_body_def get_profiles_def remove_profile_def
      add_profile_def vs_read_def vs_write_def monad_defs Let_def sample_vs_def
      to_add_profiles_def to_del_profiles_def)

subsection \<open>The port range check\<close>

text \<open>
  Claim C9. For every integer \<open>port\<close> the condition \<open>0 > port > 65535\<close> of \<open>main\<close> is false,
  so its branch is never taken: no pass of the module, whatever the parameters and the
  device, ends with the message of the range check.
\<close>

lemma vs_main_try_fail_json:
  assumes "vs_main_try check_mode p prt d = (Inr (Inl msg), d')"
  shows "msg = ''both destination and port must be supplied to create a VS''"
  using assms
  by (auto simp: vs_main_try_def monad_defs Let_def
      split: if_splits sum.splits prod.splits)

theorem port_check_never_fires:
  "\<not> port_out_of_range (Some prt)
   \<and> fst (vs_main check_mode p d) \<noteq> FailJson ''valid ports must be in range 0 - 65535''"
proof -
  have a: "\<not> port_out_of_range q" for q
    by (cases q) (auto simp: port_out_of_range_def)
  have "fst (vs_main check_mode p d) \<noteq> FailJson ''valid ports must be in range 0 - 65535''"
    by (auto simp: vs_main_def a split: sum.splits prod.splits option.splits
        dest!: vs_main_try_fail_json)
  with a show ?thesis by simp
qed

subsection \<open>The VLAN allow-list\<close>

text \<open>What the code does on the two transitions, on a virtual server that is there and whose
  VLAN operations are not refused. To the wildcard: one call that disables the restriction,
  provided the current list is not empty or the state is the very object of the constant
  \<open>STATE_ENABLED\<close>. Away from it: one call that enables the restriction with the whole
  desired list, provided the state is not the very object of the constant
  \<open>STATE_DISABLED\<close> and some desired VLAN is not in the current list.\<close>

lemma vlan_to_wildcard:
  assumes "vs_present d" and "map_of (vs_faults d) GetVlan = None"
    and "map_of (vs_faults d) SetVlan = None"
    and "''ALL'' \<in> set vl"
    and "vlans (vs_vlan d) \<noteq> [] \<or> py_is (vlan_state (vs_vlan d)) ''STATE_ENABLED''"
  shows "set_enabled_vlans name (Some vl) d =
           (Inr True,
            d\<lparr>vs_calls := vs_calls d @ [CallSetVlan ''STATE_DISABLED'' []],
              vs_vlan := \<lparr>vlan_state = \<lparr>content = ''STATE_DISABLED'', interned = False\<rparr>,
                          vlans = []\<rparr>\<rparr>)"
  using assms
  by (auto simp: set_enabled_vlans_def get_vlan_def set_vlan_def vs_read_def vs_write_def
      monad_defs Let_def)

lemma vlan_from_wildcard:
  assumes "vs_present d" and "map_of (vs_faults d) GetVlan = None"
    and "map_of (vs_faults d) SetVlan = None"
    and "''ALL'' \<notin> set vl"
    and "\<not> py_is (vlan_state (vs_vlan d)) ''STATE_DISABLED''"
    and "\<not> set vl \<subseteq> set (vlans (vs_vlan d))"
  shows "set_enabled_vlans name (Some vl) d =
           (Inr True,
            d\<lparr>vs_calls := vs_calls d @ [CallSetVlan ''STATE_ENABLED'' [vl]],
              vs_vlan := \<lparr>vlan_state = \<lparr>content = ''STATE_ENABLED'', interned = False\<rparr>,
                          vlans = vl\<rparr>\<rparr>)"
proof -
  have "filter (\<lambda>vlan. vlan \<notin> set (vlans (vs_vlan d))) vl \<noteq> []"
    using assms(6) by (auto simp: filter_empty_conv)
  then show ?thesis
    using assms(1-5)
    by (simp add: set_enabled_vlans_def get_vlan_def set_vlan_def vs_read_def vs_write_def
      monad_defs Let_def)
qed

text \<open>
  Claim C8 at two inputs where no mutation is emitted. First: the wildcard is desired and
  the restriction is enabled with an empty list, the state being a string of the device's
  own (not the object of the module's constant): the test with \<open>is\<close> fails and nothing is
  disabled. Second: a member list is desired, the server is unrestricted and its state is the
  object of the constant \<open>STATE_DISABLED\<close>: the branch stores the list to add but leaves
  \<open>updated\<close> false, and nothing is re-enabled.
\<close>

theorem vlan_transitions_failing_inputs:
  "set_enabled_vlans ''/Common/vs1'' (Some [''ALL''])
     (sample_vs\<lparr>vs_vlan := \<lparr>vlan_state = \<lparr>content = ''STATE_ENABLED'', interned = False\<rparr>,
                             vlans = []\<rparr>\<rparr>)
   = (Inr False,
      sample_vs\<lparr>vs_vlan := \<lparr>vlan_state = \<lparr>content = ''STATE_ENABLED'', interned = False\<rparr>,
                             vlans = []\<rparr>\<rparr>)
   \<and> set_enabled_vlans ''/Common/vs1'' (Some [''/Common/vlan1''])
       (sample_vs\<lparr>vs_vlan := \<lparr>vlan_state = \<lparr>content = ''STATE_DISABLED'', interned = True\<rparr>,
                               vlans = []\<rparr>\<rparr>)
     = (Inr False,
        sample_vs\<lparr>vs_vlan := \<lparr>vlan_state = \<lparr>content = ''STATE_DISABLED'', interned = True\<rparr>,
                               vlans = []\<rparr>\<rparr>)"
  by (simp add: set_enabled_vlans_def get_vlan_def set_vlan_def vs_read_def vs_write_def
      monad_defs Let_def sample_vs_def py_is_def)

subsection \<open>Check mode, removal and creation in \<open>main\<close>\<close>

lemma port_never_out_of_range: "\<not> port_out_of_range q"
  by (cases q) (auto simp: port_out_of_range_def)



lemma vs_delete_race:
  assumes "vp_state p = ''absent''"
    and "vp_port p = None \<or> vp_port p = Some [] \<or> py_int (the (vp_port p)) \<noteq> None"
    and "vs_present d" and "map_of (vs_faults d) GetObjectStatus = None"
    and "map_of (vs_faults d) DeleteVirtualServer = Some msg"
    and "py_in_str ''was not found'' msg"
  shows "vs_main False p d =
           (ExitJson \<lparr>changed = False, deleted = None\<rparr>,
            d\<lparr>vs_calls := vs_calls d
                 @ [CallDelete (the (fq_name (vp_partition p) (Some (vp_name p))))]\<rparr>)"
  using assms
  by (auto simp: vs_main_def vs_main_try_def vs_absent_branch_def vs_exists_def vs_remove_def
      vs_read_def vs_write_def monad_defs Let_def port_never_out_of_range
      split: option.splits)
section \<open>Properties of the node module\<close>

subsection \<open>Creation of a node that is to be offline\<close>

lemma wait_for_fqdn_checks_done:
  assumes "nd_fqdn_checks d = Some n"
    and "map_of (nd_faults d) NodeRefresh = None"
    and "\<forall>nd. nd_node d = Some nd \<longrightarrow> p_state nd \<noteq> Some ''fqdn-checking''"
  shows "wait_for_fqdn_checks d = Some (Inr (), d\<lparr>nd_fqdn_checks := Some 0\<rparr>)"
  using assms
proof (induction n arbitrary: d)
  case 0
  then have "resource_state d \<noteq> Some ''fqdn-checking''"
    by (auto simp: resource_state_def split: option.splits)
  moreover have "d\<lparr>nd_fqdn_checks := Some 0\<rparr> = d" using 0 by simp
  ultimately show ?case
    by (subst wait_for_fqdn_checks.simps) simp
next
  case (Suc n)
  have rs: "resource_state d = Some ''fqdn-checking''"
    using Suc.prems by (simp add: resource_state_def)
  have "wait_for_fqdn_checks (refreshed d) = Some (Inr (), (refreshed d)\<lparr>nd_fqdn_checks := Some 0\<rparr>)"
    using Suc.prems by (intro Suc.IH) (auto simp: refreshed_def)
  then show ?case
    using rs Suc.prems(2)
    by (subst wait_for_fqdn_checks.simps) (simp add: refreshed_def)
qed

text \<open>Parameters that come from the caller carry no \<open>kind\<close>: their properties do not raise.\<close>

lemma monitors_no_kind:
  assumes "p_kind w = None"
  shows "\<exists>ms. monitors w = Inr ms"
  using assms
  by (auto simp: monitors_def monitor_type_def quorum_def bindR_def Let_def split: option.splits)

lemma api_params_no_kind:
  assumes "p_kind w = None"
  shows "\<exists>pl. api_params w = Inr pl \<and> pl_session pl = p_session w \<and> pl_state pl = p_state w"
  using monitors_no_kind [OF assms]
  by (auto simp: api_params_def bindR_def)

lemma creation_prelude_offline:
  assumes "p_state (mm_want m) = Some ''offline''"
    and "p_kind (mm_want m) = None"
    and "(p_address (mm_want m) = None) \<noteq> (p_fqdn (mm_want m) = None)"
  shows "\<exists>c. bindE check_required_creation_vars (\<lambda>_.
           bindE munge_creation_state_for_device (\<lambda>_.
           set_changed_options)) m
          = (Inr (), m\<lparr>mm_want := offline_want (mm_want m), mm_changes := c\<rparr>)"
proof -
  define w where "w = mm_want m"
  define m1 where "m1 = m\<lparr>mm_want := w\<lparr>p_address := (if p_fqdn w \<noteq> None then Some ''any6''
                                                      else p_address w)\<rparr>\<rparr>"
  define m2 where "m2 = m\<lparr>mm_want := offline_want w\<rparr>"
  have 1: "check_required_creation_vars m = (Inr (), m1)"
    using assms(3) unfolding m1_def w_def
    by (cases "p_address (mm_want m)"; cases "p_fqdn (mm_want m)")
       (simp_all add: check_required_creation_vars_def monad_defs Let_def fqdn_def updWant_def)
  have 2: "munge_creation_state_for_device m1 = (Inr (), m2)"
    using assms(1) unfolding m1_def m2_def w_def
    by (simp add: munge_creation_state_for_device_def monad_defs Let_def updWant_def
        startswith_def offline_want_def)
  have k: "p_kind (offline_want w) = None"
    using assms(2) by (simp add: offline_want_def w_def)
  obtain ms where ms: "monitors (offline_want w) = Inr ms"
    using monitors_no_kind [OF k] by blast
  have "\<exists>c. set_changed_options m2 = (Inr (), m2\<lparr>mm_changes := c\<rparr>)"
    using k ms unfolding m2_def
    by (auto simp add: set_changed_options_def Let_def monitor_type_def quorum_def offline_want_def)
  then obtain c where c: "set_changed_options m2 = (Inr (), m2\<lparr>mm_changes := c\<rparr>)"
    by blast
  have "bindE check_required_creation_vars (\<lambda>_.
           bindE munge_creation_state_for_device (\<lambda>_.
           set_changed_options)) m = (Inr (), m2\<lparr>mm_changes := c\<rparr>)"
    by (simp add: bindE_def 1 2 c)
  then show ?thesis unfolding m2_def w_def by auto
qed

lemma create_on_device_ok:
  assumes "p_kind (mm_want m) = None"
    and "p_state (mm_want m) \<noteq> Some ''fqdn-checking''"
    and "nd_node (mm_dev m) = None" and "nd_faults (mm_dev m) = []"
    and "nd_fqdn_checks (mm_dev m) = Some n"
  shows "\<exists>pl nd. create_on_device m =
           Some (Inr (),
                 m\<lparr>mm_dev := (mm_dev m)\<lparr>nd_calls := nd_calls (mm_dev m)
                       @ [CallNodeCreate (p_name (mm_want m)) (partition_of (mm_want m)) pl],
                       nd_node := Some nd, nd_fqdn_checks := Some 0\<rparr>\<rparr>)
         \<and> pl_session pl = p_session (mm_want m) \<and> pl_state pl = p_state (mm_want m)"
proof -
  obtain pl where pl: "api_params (mm_want m) = Inr pl"
    "pl_session pl = p_session (mm_want m)" "pl_state pl = p_state (mm_want m)"
    using api_params_no_kind [OF assms(1)] by blast
  define nd where "nd = apply_payload
               (pl\<lparr>pl_state := (if pl_state pl = Some ''user-down''
                                 then Some ''unchecked'' else pl_state pl)\<rparr>)
               (empty_params\<lparr>p_name := p_name (mm_want m),
                  p_partition := Some (partition_of (mm_want m)),
                  p_kind := Some ''tm:ltm:node:nodestate''\<rparr>)"
  define d1 where "d1 = (mm_dev m)\<lparr>nd_calls := nd_calls (mm_dev m)
                       @ [CallNodeCreate (p_name (mm_want m)) (partition_of (mm_want m)) pl],
                nd_node := Some nd\<rparr>"
  have cr: "node_create (p_name (mm_want m)) (partition_of (mm_want m)) pl m
              = (Inr (), m\<lparr>mm_dev := d1\<rparr>)"
    using assms(3,4) unfolding d1_def nd_def by (simp add: node_create_def Let_def)
  have st: "p_state nd \<noteq> Some ''fqdn-checking''"
    using pl(3) assms(2) unfolding nd_def
    by (auto simp: apply_payload_def empty_params_def split: option.splits)
  have w: "wait_for_fqdn_checks d1 = Some (Inr (), d1\<lparr>nd_fqdn_checks := Some 0\<rparr>)"
    using assms(4,5) st unfolding d1_def by (intro wait_for_fqdn_checks_done [of _ n]) simp_all
  have "create_on_device m = Some (Inr (), m\<lparr>mm_dev := d1\<lparr>nd_fqdn_checks := Some 0\<rparr>\<rparr>)"
    by (simp add: create_on_device_def pl(1) cr w)
  then show ?thesis using pl(2,3) unfolding d1_def by auto
qed

lemma create_checked_offline:
  assumes "p_is_offline (mm_want m) = Some True"
    and "nd_node (mm_dev m) = Some nd" and "nd_faults (mm_dev m) = []"
  shows "create_checked m =
           (Inr True,
            m\<lparr>mm_dev := (mm_dev m)\<lparr>nd_calls := nd_calls (mm_dev m) @ [CallNodeModify offline_payload],
                  nd_node := Some (apply_payload offline_payload nd)\<rparr>\<rparr>)"
  using assms
  by (simp add: create_checked_def exists_on_device_def update_node_offline_on_device_def
      node_load_def node_modify_def monad_defs Let_def)

lemma offline_creation_run:
  assumes "p_state want = Some ''offline''"
    and "p_kind want = None"
    and "(p_address want = None) \<noteq> (p_fqdn want = None)"
    and "nd_node d = None" and "nd_faults d = []" and "nd_fqdn_checks d = Some n"
  shows "\<exists>pl r d'. node_main False want d = Some (NodeExitJson r, d')
           \<and> nr_changed r
           \<and> nd_calls d' = nd_calls d
                @ [CallNodeCreate (p_name want) (partition_of want) pl,
                   CallNodeModify offline_payload]
           \<and> pl_session pl = Some ''user-disabled''
           \<and> pl_state pl = Some ''user-down''"
proof -
  define m where "m = \<lparr>mm_want = want, mm_have = None, mm_changes = empty_params, mm_dev = d\<rparr>"
  have m: "mm_want m = want" "mm_dev m = d" by (simp_all add: m_def)
  obtain c where pre: "bindE check_required_creation_vars (\<lambda>_.
           bindE munge_creation_state_for_device (\<lambda>_.
           set_changed_options)) m
          = (Inr (), m\<lparr>mm_want := offline_want want, mm_changes := c\<rparr>)"
    using creation_prelude_offline [of m] assms(1-3) m by auto
  define m1 where "m1 = m\<lparr>mm_want := offline_want want, mm_changes := c\<rparr>"
  have m1: "mm_want m1 = offline_want want" "mm_dev m1 = d" by (simp_all add: m1_def m)
  have ow: "p_kind (offline_want want) = None" "p_state (offline_want want) = Some ''user-down''"
    "p_session (offline_want want) = Some ''user-disabled''"
    "p_is_offline (offline_want want) = Some True"
    "p_name (offline_want want) = p_name want"
    "partition_of (offline_want want) = partition_of want"
    using assms(2) by (simp_all add: offline_want_def partition_of_def)
  obtain pl nd where cod: "create_on_device m1 =
           Some (Inr (),
                 m1\<lparr>mm_dev := d\<lparr>nd_calls := nd_calls d
                       @ [CallNodeCreate (p_name want) (partition_of want) pl],
                       nd_node := Some nd, nd_fqdn_checks := Some 0\<rparr>\<rparr>)"
      and pl: "pl_session pl = Some ''user-disabled''" "pl_state pl = Some ''user-down''"
    using create_on_device_ok [of m1 n] assms(4-6) by (auto simp: m1 ow)
  define m2 where "m2 = m1\<lparr>mm_dev := d\<lparr>nd_calls := nd_calls d
                       @ [CallNodeCreate (p_name want) (partition_of want) pl],
                       nd_node := Some nd, nd_fqdn_checks := Some 0\<rparr>\<rparr>"
  have cc: "create_checked m2 =
           (Inr True,
            m2\<lparr>mm_dev := (mm_dev m2)\<lparr>nd_calls := nd_calls (mm_dev m2) @ [CallNodeModify offline_payload],
                  nd_node := Some (apply_payload offline_payload nd)\<rparr>\<rparr>)"
    using assms(5) by (intro create_checked_offline) (simp_all add: m2_def m1 ow)
  have cr: "create False m = Some (create_checked m2)"
    by (simp add: create_def pre cod m2_def flip: m1_def)
  have ex: "exists_on_device m = (Inr False, m)"
    using assms(4,5) by (simp add: exists_on_device_def m)
  have "present False m = Some (create_checked m2)"
    by (simp add: present_def ex cr)
  then have "exec_module False m =
               Some (Inr \<lparr>nr_changed = True,
                          nr_changes = to_return (mm_changes (snd (create_checked m2)))\<rparr>,
                     snd (create_checked m2))"
    using assms(1) by (simp add: exec_module_def Let_def cc m)
  then have nm: "node_main False want d =
               Some (NodeExitJson \<lparr>nr_changed = True,
                          nr_changes = to_return (mm_changes (snd (create_checked m2)))\<rparr>,
                     mm_dev (snd (create_checked m2)))"
    unfolding node_main_def m_def [symmetric] by simp
  have calls: "nd_calls (mm_dev (snd (create_checked m2))) =
                 nd_calls d @ [CallNodeCreate (p_name want) (partition_of want) pl,
                               CallNodeModify offline_payload]"
    unfolding cc by (simp add: m2_def)
  show ?thesis
    using nm calls pl by auto
qed

subsection \<open>Check mode against a real run\<close>


lemma catchE_keeps:
  assumes "\<And>m. sel (snd (f m)) = sel m" and "\<And>a m. sel (snd (g a m)) = sel m"
  shows "sel (snd (catchE f g m)) = sel m"
proof (cases "f m")
  case (Pair r m1)
  have "sel m1 = sel m" using assms(1) [of m] Pair by simp
  then show ?thesis
    using Pair assms(2) by (cases r) (simp_all add: catchE_def)
qed



































section \<open>Properties of a pass\<close>

subsection \<open>Offline at creation\<close>

text \<open>
  Claim C3, as the code has it. Creating a node whose desired state is \<open>offline\<close>, on a
  device where the node is not there, no operation fails and the FQDN checks come to an end
  (the parameters naming exactly one of address and FQDN): the pass ends with
  \<open>changed = True\<close> after exactly two mutating calls, one \<open>create\<close> whose attributes carry
  \<open>session = user-disabled\<close> and \<open>state = user-down\<close>, then, once the node is seen to exist,
  one \<open>modify\<close> that sets \<open>session = user-disabled\<close> and \<open>state = user-down\<close>.
\<close>

theorem offline_creation:
  assumes "p_state want = Some ''offline''"
    and "p_kind want = None"
    and "(p_address want = None) \<noteq> (p_fqdn want = None)"
    and "nd_node d = None" and "nd_faults d = []" and "nd_fqdn_checks d = Some n"
  shows "\<exists>pl r d'. node_main False want d = Some (NodeExitJson r, d')
           \<and> nr_changed r
           \<and> nd_calls d' = nd_calls d
                @ [CallNodeCreate (p_name want) (partition_of want) pl,
                   CallNodeModify offline_payload]
           \<and> pl_session pl = Some ''user-disabled''
           \<and> pl_state pl = Some ''user-down''"
  using assms by (rule offline_creation_run)

text \<open>
  The theorem at the node \<open>node1\<close> with address \<open>10.0.0.1\<close>, on a device without it.
\<close>

theorem offline_creation_witness:
  "p_state (node1\<lparr>p_state := Some ''offline''\<rparr>) = Some ''offline''
   \<and> p_kind (node1\<lparr>p_state := Some ''offline''\<rparr>) = None
   \<and> (p_address (node1\<lparr>p_state := Some ''offline''\<rparr>) = None)
       \<noteq> (p_fqdn (node1\<lparr>p_state := Some ''offline''\<rparr>) = None)
   \<and> nd_node no_node = None \<and> nd_faults no_node = [] \<and> nd_fqdn_checks no_node = Some 0
   \<and> (\<exists>pl r d'. node_main False (node1\<lparr>p_state := Some ''offline''\<rparr>) no_node
                    = Some (NodeExitJson r, d')
           \<and> nr_changed r
           \<and> nd_calls d' = nd_calls no_node
                @ [CallNodeCreate (p_name (node1\<lparr>p_state := Some ''offline''\<rparr>))
                     (partition_of (node1\<lparr>p_state := Some ''offline''\<rparr>)) pl,
                   CallNodeModify offline_payload]
           \<and> pl_session pl = Some ''user-disabled''
           \<and> pl_state pl = Some ''user-down'')"
proof -
  have h: "p_state (node1\<lparr>p_state := Some ''offline''\<rparr>) = Some ''offline''"
    "p_kind (node1\<lparr>p_state := Some ''offline''\<rparr>) = None"
    "(p_address (node1\<lparr>p_state := Some ''offline''\<rparr>) = None)
       \<noteq> (p_fqdn (node1\<lparr>p_state := Some ''offline''\<rparr>) = None)"
    "nd_node no_node = None" "nd_faults no_node = []" "nd_fqdn_checks no_node = Some 0"
    by (simp_all add: node1_def no_node_def empty_params_def)
  show ?thesis
    using h offline_creation [OF h] by blast
qed

text \<open>
  Claim C3 as stated fails on the attributes of the \<open>create\<close> call: they contain
  \<open>state = user-down\<close>, not \<open>user-up\<close>. The two calls of that creation:
\<close>

theorem offline_creation_counterexample:
  "map_option (\<lambda>(out, d). nd_calls d)
     (node_main False (node1\<lparr>p_state := Some ''offline''\<rparr>) no_node) =
   Some [CallNodeCreate (Some ''node1'') ''Common''
          \<lparr>pl_monitor = None, pl_description = None, pl_address = Some ''10.0.0.1'',
           pl_fqdn = None, pl_session = Some ''user-disabled'',
           pl_state = Some ''user-down''\<rparr>,
         CallNodeModify
          \<lparr>pl_monitor = None, pl_description = None, pl_address = None,
           pl_fqdn = None, pl_session = Some ''user-disabled'',
           pl_state = Some ''user-down''\<rparr>]"
  by code_simp

subsection \<open>Removal racing with another actor\<close>

text \<open>
  Removal when the delete call fails: the node module has no handler for it, the failure
  leaves \<open>exec_module\<close> as an \<open>F5ModuleError\<close> and \<open>main\<close> ends with \<open>fail_json\<close>.
\<close>

lemma node_delete_failure:
  assumes "p_state want = Some ''absent''" and "nd_node d \<noteq> None"
    and "map_of (nd_faults d) NodeExists = None"
    and "map_of (nd_faults d) NodeLoad = None"
    and "map_of (nd_faults d) NodeDelete = Some msg"
  shows "node_main False want d =
           Some (NodeFailJson msg, d\<lparr>nd_calls := nd_calls d @ [CallNodeDelete]\<rparr>)"
  using assms
  by (auto simp: node_main_def exec_module_def absent_def remove_def remove_from_device_def
      exists_on_device_def node_load_def node_delete_def monad_defs Let_def)

text \<open>
  Claim C4, as the code has it. A pass with desired state \<open>absent\<close>, the existence check
  answering yes and the delete call then failing. Virtual server: if the failure's text
  contains \<open>was not found\<close>, the pass ends with \<open>changed = False\<close> and no error, having
  issued the one delete call. Node: the pass ends with \<open>fail_json\<close> and the failure's text,
  whatever it says, having issued the one delete call.
\<close>

theorem delete_race:
  "(vp_state p = ''absent''
      \<and> (vp_port p = None \<or> vp_port p = Some [] \<or> py_int (the (vp_port p)) \<noteq> None)
      \<and> vs_present d \<and> map_of (vs_faults d) GetObjectStatus = None
      \<and> map_of (vs_faults d) DeleteVirtualServer = Some msg
      \<and> py_in_str ''was not found'' msg
    \<longrightarrow> vs_main False p d =
           (ExitJson \<lparr>changed = False, deleted = None\<rparr>,
            d\<lparr>vs_calls := vs_calls d
                 @ [CallDelete (the (fq_name (vp_partition p) (Some (vp_name p))))]\<rparr>))
   \<and> (p_state want = Some ''absent'' \<and> nd_node nd \<noteq> None
        \<and> map_of (nd_faults nd) NodeExists = None
        \<and> map_of (nd_faults nd) NodeLoad = None
        \<and> map_of (nd_faults nd) NodeDelete = Some nmsg
      \<longrightarrow> node_main False want nd =
             Some (NodeFailJson nmsg, nd\<lparr>nd_calls := nd_calls nd @ [CallNodeDelete]\<rparr>))"
  using vs_delete_race [of p d msg] node_delete_failure [of want nd nmsg] by blast

lemma not_found_signature:
  "py_in_str ''was not found'' not_found_msg" "py_in_str ''was not found'' node_not_found_msg"
  by code_simp+

text \<open>
  Both halves at a device that answers the delete call with its not-found message.
\<close>

theorem delete_race_witness:
  "vs_main False absent_params (sample_vs\<lparr>vs_faults := [(DeleteVirtualServer, not_found_msg)]\<rparr>) =
     (ExitJson \<lparr>changed = False, deleted = None\<rparr>,
      sample_vs\<lparr>vs_faults := [(DeleteVirtualServer, not_found_msg)],
                vs_calls := [CallDelete ''/Common/vs1'']\<rparr>)
   \<and> node_main False (node1\<lparr>p_state := Some ''absent''\<rparr>)
        (with_node\<lparr>nd_faults := [(NodeDelete, node_not_found_msg)]\<rparr>) =
       Some (NodeFailJson node_not_found_msg,
             with_node\<lparr>nd_faults := [(NodeDelete, node_not_found_msg)],
                       nd_calls := [CallNodeDelete]\<rparr>)"
  using delete_race [of absent_params
      "sample_vs\<lparr>vs_faults := [(DeleteVirtualServer, not_found_msg)]\<rparr>" not_found_msg
      "node1\<lparr>p_state := Some ''absent''\<rparr>"
      "with_node\<lparr>nd_faults := [(NodeDelete, node_not_found_msg)]\<rparr>" node_not_found_msg]
    not_found_signature
  by (simp add: absent_params_def sample_vs_def node1_def with_node_def empty_params_def
      fq_name_def startswith_def)

text \<open>
  Claim C4 as stated fails for the node: the existence check answers yes, the delete call
  fails with a message that contains \<open>was not found\<close>, and the pass ends with a fatal
  error.
\<close>

theorem delete_race_counterexample:
  "py_in_str ''was not found'' node_not_found_msg
   \<and> node_main False (node1\<lparr>p_state := Some ''absent''\<rparr>)
        (with_node\<lparr>nd_faults := [(NodeDelete, node_not_found_msg)]\<rparr>) =
       Some (NodeFailJson node_not_found_msg,
             with_node\<lparr>nd_faults := [(NodeDelete, node_not_found_msg)],
                       nd_calls := [CallNodeDelete]\<rparr>)"
  by code_simp

subsection \<open>Creation racing with another actor\<close>

text \<open>
  Claim C5 at two creations the device answers with "already exists" (the object was made
  by another actor after the existence check). Virtual server: \<open>vs_create\<close> turns every
  \<open>OperationFailed\<close> into an \<open>Exception\<close> without looking at its text, and \<open>main\<close> ends
  with \<open>fail_json\<close>. Node: nothing catches the failure before \<open>exec_module\<close>, and \<open>main\<close>
  ends with \<open>fail_json\<close>.
\<close>

theorem create_race_failing_inputs:
  "py_in_str ''already exists'' already_exists_msg
   \<and> fst (vs_main False present_params
            (sample_vs\<lparr>vs_present := False, vs_faults := [(Create, already_exists_msg)]\<rparr>))
       = FailJson (''received exception: Error on creating Virtual Server : '' @ already_exists_msg)
   \<and> py_in_str ''already exists'' node_conflict_msg
   \<and> map_option fst (node_main False node1 (no_node\<lparr>nd_faults := [(NodeCreate, node_conflict_msg)]\<rparr>))
       = Some (NodeFailJson node_conflict_msg)"
  by code_simp

subsection \<open>Check mode\<close>

































section \<open>The monitor expression\<close>

subsection \<open>Round trip\<close>

lemma slash_not_word: "\<not> is_word_char CHR ''/''"
  by (simp add: is_word_char_def)

lemma monitor_name_shape:
  assumes "is_monitor_name n"
  shows "\<exists>w r. n = CHR ''/'' # w @ CHR ''/'' # r \<and> w \<noteq> [] \<and> (\<forall>c\<in>set w. is_word_char c)
           \<and> r \<noteq> [] \<and> (\<forall>c\<in>set r. is_name_char c)"
proof -
  from assms obtain r0 where n: "n = CHR ''/'' # r0"
    by (auto simp: is_monitor_name_def match_monitor_def split: list.splits if_splits)
  let ?w = "takeWhile is_word_char r0"
  let ?r1 = "dropWhile is_word_char r0"
  from assms n have w: "?w \<noteq> []"
    by (auto simp: is_monitor_name_def match_monitor_def Let_def split: list.splits if_splits)
  from assms n w obtain r2 where r1: "?r1 = CHR ''/'' # r2"
    by (auto simp: is_monitor_name_def match_monitor_def Let_def split: list.splits if_splits)
  let ?nm = "takeWhile is_name_char r2"
  from assms n w r1 have nm: "?nm \<noteq> []" and res: "CHR ''/'' # ?w @ CHR ''/'' # ?nm = n"
    by (auto simp: is_monitor_name_def match_monitor_def Let_def split: list.splits if_splits)
  have "r0 = ?w @ ?r1" by simp
  with res n r1 have "r2 = ?nm" by (metis append_same_eq list.inject same_append_eq)
  then have "\<forall>c\<in>set r2. is_name_char c"
    by (metis takeWhile_eq_all_conv)
  moreover have "\<forall>c\<in>set ?w. is_word_char c" by (metis set_takeWhileD)
  ultimately show ?thesis using res w nm \<open>r2 = ?nm\<close> by (metis)
qed

lemma match_monitor_prefix:
  assumes "is_monitor_name n" and "rest = [] \<or> \<not> is_name_char (hd rest)"
  shows "match_monitor (n @ rest) = Some n"
proof -
  obtain w r where n: "n = CHR ''/'' # w @ CHR ''/'' # r" and w: "w \<noteq> []"
    "\<forall>c\<in>set w. is_word_char c" and r: "r \<noteq> []" "\<forall>c\<in>set r. is_name_char c"
    using monitor_name_shape [OF assms(1)] by blast
  have tw: "takeWhile is_word_char (w @ CHR ''/'' # r @ rest) = w"
    using w(2) slash_not_word by (simp add: takeWhile_append2)
  have dw: "dropWhile is_word_char (w @ CHR ''/'' # r @ rest) = CHR ''/'' # r @ rest"
    using w(2) slash_not_word by (simp add: dropWhile_append2)
  have tn: "takeWhile is_name_char (r @ rest) = r"
    using r(2) assms(2) by (cases rest) (simp_all add: takeWhile_append2)
  show ?thesis
    using w(1) r(1) by (simp add: n match_monitor_def tw dw tn)
qed

lemma findall_skip: "findall_monitors (length xs) (xs @ ys) = findall_monitors 0 ys"
  by (induction xs) simp_all

lemma match_monitor_no_slash: "c \<noteq> CHR ''/'' \<Longrightarrow> match_monitor (c # cs) = None"
  by (simp add: match_monitor_def)

lemma findall_junk:
  assumes "\<forall>c\<in>set xs. c \<noteq> CHR ''/''"
  shows "findall_monitors 0 (xs @ ys) = findall_monitors 0 ys"
  using assms by (induction xs) (simp_all add: match_monitor_no_slash)

lemma findall_name:
  assumes "is_monitor_name n" and "rest = [] \<or> \<not> is_name_char (hd rest)"
  shows "findall_monitors 0 (n @ rest) = n # findall_monitors 0 rest"
proof -
  obtain c cs where n: "n = c # cs"
    using monitor_name_shape [OF assms(1)] by blast
  have "match_monitor (c # cs @ rest) = Some n"
    using match_monitor_prefix [OF assms] n by simp
  then show ?thesis
    using findall_skip [of cs rest] by (simp add: n)
qed

lemma space_not_name: "\<not> is_name_char CHR '' ''"
  by (simp add: is_name_char_def is_space_def)

lemma findall_join_space:
  assumes "M \<noteq> []" and "list_all is_monitor_name M"
  shows "findall_monitors 0 (py_join '' '' M @ '' }'') = M"
  using assms
proof (induction "'' ''" M rule: py_join.induct)
  case 1
  then show ?case by simp
next
  case (2 x)
  have "findall_monitors 0 '' }'' = []"
    by (simp add: match_monitor_def)
  then show ?case
    using 2 findall_name [of x "'' }''"] space_not_name by simp
next
  case (3 x y ys)
  have "findall_monitors 0 (x @ CHR '' '' # (py_join '' '' (y # ys) @ '' }''))
          = x # findall_monitors 0 (CHR '' '' # (py_join '' '' (y # ys) @ '' }''))"
    using 3(3) findall_name [of x "CHR '' '' # (py_join '' '' (y # ys) @ '' }'')"] space_not_name
    by simp
  also have "findall_monitors 0 (CHR '' '' # (py_join '' '' (y # ys) @ '' }''))
              = findall_monitors 0 (py_join '' '' (y # ys) @ '' }'')"
    by (simp add: match_monitor_def)
  finally show ?case
    using 3 by simp
qed

lemma findall_join_and:
  assumes "M \<noteq> []" and "list_all is_monitor_name M"
  shows "findall_monitors 0 (py_join '' and '' M) = M"
  using assms
proof (induction "'' and ''" M rule: py_join.induct)
  case 1
  then show ?case by simp
next
  case (2 x)
  then show ?case
    using findall_name [of x "[]"] by simp
next
  case (3 x y ys)
  have "findall_monitors 0 (x @ '' and '' @ py_join '' and '' (y # ys))
          = x # findall_monitors 0 ('' and '' @ py_join '' and '' (y # ys))"
    using 3(3) findall_name [of x "'' and '' @ py_join '' and '' (y # ys)"] space_not_name
    by simp
  also have "findall_monitors 0 ('' and '' @ py_join '' and '' (y # ys))
              = findall_monitors 0 (py_join '' and '' (y # ys))"
    by (rule findall_junk) simp
  finally show ?case
    using 3 by simp
qed

lemma digit_char_is_digit: "is_digit (digit_char n)"
proof -
  have "\<forall>k\<in>set [0..<10]. is_digit (''0123456789'' ! k)"
    by code_simp
  moreover have "n mod 10 \<in> set [0..<10]" by simp
  ultimately show ?thesis
    unfolding digit_char_def by blast
qed

lemma str_nat_digits: "str_nat n \<noteq> [] \<and> list_all is_digit (str_nat n)"
proof (induction n rule: str_nat.induct)
  case (1 n)
  show ?case
  proof (cases "n < 10")
    case True
    then show ?thesis
      by (subst (1 2) str_nat.simps) (simp add: digit_char_is_digit)
  next
    case False
    then show ?thesis
      using 1 by (subst (1 2) str_nat.simps) (simp add: digit_char_is_digit)
  qed
qed

lemma digit_not_space: "is_digit c \<Longrightarrow> \<not> is_space c"
  by (auto simp: is_digit_def is_space_def)

lemma digit_not_slash: "is_digit c \<Longrightarrow> c \<noteq> CHR ''/''"
  by (auto simp: is_digit_def)

lemma takeWhile_stop:
  "(\<forall>c\<in>set ds. P c) \<Longrightarrow> \<not> P y \<Longrightarrow> takeWhile P (ds @ y # ys) = ds"
  by (simp add: takeWhile_append2)

lemma dropWhile_stop:
  "(\<forall>c\<in>set ds. P c) \<Longrightarrow> \<not> P y \<Longrightarrow> dropWhile P (ds @ y # ys) = y # ys"
  by (simp add: dropWhile_append2)


lemma match_min_of_rendered:
  assumes "ds \<noteq> []" and "list_all is_digit ds"
  shows "match_min_of (''min '' @ ds @ '' of { '' @ X) = Some ds"
proof -
  obtain d ds' where ds: "ds = d # ds'" using assms(1) by (cases ds) auto
  have d: "\<not> is_space d" "is_digit d" using assms(2) ds digit_not_space by simp_all
  have all: "\<forall>c\<in>set ds'. is_digit c" using assms(2) ds by (simp add: list_all_iff)
  have sp: "is_space CHR '' ''" "\<not> is_digit CHR '' ''" "\<not> is_space CHR ''o''"
    by (simp_all add: is_space_def is_digit_def)
  have r: "drop 3 (''min '' @ (d # ds') @ '' of { '' @ X) = CHR '' '' # d # ds' @ '' of { '' @ X"
    by simp
  have s1: "takeWhile is_space (CHR '' '' # d # ds' @ '' of { '' @ X) = '' ''"
    using d sp by simp
  have s2: "dropWhile is_space (CHR '' '' # d # ds' @ '' of { '' @ X) = d # ds' @ '' of { '' @ X"
    using d sp by simp
  have t1: "takeWhile is_digit (d # ds' @ '' of { '' @ X) = d # ds'"
    using d sp all by (simp add: takeWhile_stop)
  have t2: "dropWhile is_digit (d # ds' @ '' of { '' @ X) = '' of { '' @ X"
    using d sp all by (simp add: dropWhile_stop)
  have u1: "takeWhile is_space ('' of { '' @ X) = '' ''"
    using sp by simp
  have u2: "dropWhile is_space ('' of { '' @ X) = ''of { '' @ X"
    using sp by simp
  have st: "startswith (''min '' @ (d # ds') @ '' of { '' @ X) ''min''"
    "startswith (''of { '' @ X) ''of''"
    by (simp_all add: startswith_def)
  show ?thesis
    unfolding ds match_min_of_def Let_def r s1 s2 t1 t2 u1 u2
    using st by simp
qed


lemma search_min_of_rendered:
  assumes "ds \<noteq> []" and "list_all is_digit ds"
  shows "search_min_of (''min '' @ ds @ '' of { '' @ X) = Some ds"
  using match_min_of_rendered [OF assms, of X] by simp

lemma has_space_digit_Cons: "has_space_digit cs \<Longrightarrow> has_space_digit (c # cs)"
  by (cases cs) auto

lemma has_space_digit_append:
  "has_space_digit (xs @ ys) =
     (has_space_digit xs \<or> has_space_digit ys
      \<or> (xs \<noteq> [] \<and> ys \<noteq> [] \<and> is_space (last xs) \<and> is_digit (hd ys)))"
proof (induction xs rule: has_space_digit.induct)
  case (1 a b r)
  then show ?case by auto
next
  case (2 a)
  then show ?case by (cases ys) auto
next
  case 3
  then show ?case by simp
qed


lemma match_min_of_space_digit:
  assumes "match_min_of t = Some q"
  shows "has_space_digit t"
proof -
  define r where "r = drop 3 t"
  define ws where "ws = takeWhile is_space r"
  define r1 where "r1 = dropWhile is_space r"
  from assms have ws: "ws \<noteq> []" and ds: "takeWhile is_digit r1 \<noteq> []"
    by (auto simp: match_min_of_def Let_def r_def ws_def r1_def split: if_splits)
  have 1: "is_space (last ws)"
    using ws unfolding ws_def by (metis last_in_set set_takeWhileD)
  have ne: "r1 \<noteq> []" using ds by auto
  have 2: "is_digit (hd r1)"
    using ds by (cases r1) (auto split: if_splits)
  have "has_space_digit (ws @ r1)"
    using ws 1 ne 2 by (simp add: has_space_digit_append)
  then have "has_space_digit r" by (simp add: ws_def r1_def)
  then have "has_space_digit (take 3 t @ r)"
    by (simp add: has_space_digit_append)
  then show ?thesis by (simp add: r_def)
qed

lemma search_min_of_space_digit:
  "search_min_of s = Some q \<Longrightarrow> has_space_digit s"
proof (induction s)
  case Nil
  then show ?case by simp
next
  case (Cons c cs)
  show ?case
  proof (cases "match_min_of (c # cs)")
    case None
    then have "has_space_digit cs" using Cons by simp
    then show ?thesis by (rule has_space_digit_Cons)
  next
    case (Some a)
    then show ?thesis by (rule match_min_of_space_digit)
  qed
qed


lemma no_space_no_space_digit:
  "\<forall>c\<in>set xs. \<not> is_space c \<Longrightarrow> \<not> has_space_digit xs"
  by (induction xs rule: has_space_digit.induct) auto

lemma word_char_not_space: "is_word_char c \<Longrightarrow> \<not> is_space c"
  by (auto simp: is_word_char_def is_space_def)

lemma name_no_space_digit:
  assumes "is_monitor_name n"
  shows "\<not> has_space_digit n" and "n \<noteq> []" and "hd n = CHR ''/''" and "\<not> is_space (last n)"
proof -
  obtain w r where n: "n = CHR ''/'' # w @ CHR ''/'' # r" and w: "w \<noteq> []"
    "\<forall>c\<in>set w. is_word_char c" and r: "r \<noteq> []" "\<forall>c\<in>set r. is_name_char c"
    using monitor_name_shape [OF assms] by blast
  have ww: "\<forall>c\<in>set w. \<not> is_space c"
    using w(2) word_char_not_space by blast
  have rr: "\<forall>c\<in>set r. \<not> is_space c"
    using r(2) by (auto simp: is_name_char_def)
  have sl: "\<not> is_space CHR ''/''" by (simp add: is_space_def)
  have ns: "\<forall>c\<in>set n. \<not> is_space c"
    unfolding n using ww rr sl by auto
  show "\<not> has_space_digit n" using ns by (rule no_space_no_space_digit)
  show ne: "n \<noteq> []" and "hd n = CHR ''/''" by (simp_all add: n)
  show "\<not> is_space (last n)" using ns ne last_in_set by blast
qed


lemma join_and_shape:
  assumes "M \<noteq> []" and "list_all is_monitor_name M"
  shows "\<not> has_space_digit (py_join '' and '' M) \<and> py_join '' and '' M \<noteq> []
         \<and> hd (py_join '' and '' M) = CHR ''/'' \<and> \<not> is_space (last (py_join '' and '' M))"
  using assms
proof (induction "'' and ''" M rule: py_join.induct)
  case 1
  then show ?case by simp
next
  case (2 x)
  then show ?case using name_no_space_digit [of x] by simp
next
  case (3 x y ys)
  define t where "t = py_join '' and '' (y # ys)"
  have x: "\<not> has_space_digit x" "x \<noteq> []" "hd x = CHR ''/''" "\<not> is_space (last x)"
    using 3(3) name_no_space_digit [of x] by simp_all
  have t: "\<not> has_space_digit t" "t \<noteq> []" "hd t = CHR ''/''" "\<not> is_space (last t)"
    using 3 unfolding t_def by simp_all
  have nd: "\<not> is_digit CHR ''/''" "\<not> is_digit CHR '' ''" "\<not> is_digit CHR ''a''"
    "\<not> is_digit CHR ''n''" "\<not> is_digit CHR ''d''"
    by (simp_all add: is_digit_def)
  have "\<not> has_space_digit ('' and '')"
    using nd by simp
  then have sep: "\<not> has_space_digit ('' and '' @ t)"
    using t nd by (subst has_space_digit_append) simp
  have "\<not> has_space_digit (x @ '' and '' @ t)"
    using x sep nd by (subst has_space_digit_append) simp
  moreover have "last (x @ '' and '' @ t) = last t" using t(2) by simp
  moreover have "hd (x @ '' and '' @ t) = CHR ''/''" using x by simp
  ultimately show ?case
    using x t unfolding t_def by simp
qed

lemma search_min_of_and_list:
  assumes "M \<noteq> []" and "list_all is_monitor_name M"
  shows "search_min_of (py_join '' and '' M) = None"
  using join_and_shape [OF assms] search_min_of_space_digit
  by (cases "search_min_of (py_join '' and '' M)") auto

lemma dropWhile_hd: "xs \<noteq> [] \<Longrightarrow> \<not> P (hd xs) \<Longrightarrow> dropWhile P xs = xs"
  by (cases xs) auto

lemma py_strip_id:
  assumes "s \<noteq> []" and "\<not> is_space (hd s)" and "\<not> is_space (last s)"
  shows "py_strip s = s"
proof -
  have 1: "dropWhile is_space s = s"
    using assms(1,2) by (rule dropWhile_hd)
  have "hd (rev s) = last s" using assms(1) by (simp add: hd_rev)
  then have 2: "dropWhile is_space (rev s) = rev s"
    using assms(1,3) by (intro dropWhile_hd) simp_all
  show ?thesis by (simp add: py_strip_def 1 2)
qed

lemma monitor_names_qualified:
  assumes "list_all is_monitor_name M"
  shows "map (fqdn_name p) M = M"
proof -
  have "fqdn_name p n = n" if "is_monitor_name n" for n
    using name_no_space_digit(2,3) [OF that]
    by (cases n) (auto simp: fqdn_name_def startswith_def)
  then show ?thesis
    using assms by (simp add: list_all_iff map_idI)
qed

lemma digits_to_nat_snoc: "digits_to_nat (ds @ [c]) = 10 * digits_to_nat ds + digit_val c"
  by (simp add: digits_to_nat_def)

lemma digit_val_digit_char: "digit_val (digit_char n) = n mod 10"
proof -
  have "\<forall>k\<in>set [0..<10]. digit_val (''0123456789'' ! k) = k"
    by code_simp
  moreover have "n mod 10 \<in> set [0..<10]" by simp
  ultimately show ?thesis
    unfolding digit_char_def by blast
qed

lemma digits_to_nat_str_nat: "digits_to_nat (str_nat n) = n"
proof (induction n rule: str_nat.induct)
  case (1 n)
  show ?case
  proof (cases "n < 10")
    case True
    then show ?thesis
      by (subst str_nat.simps) (simp add: digits_to_nat_def digit_val_digit_char)
  next
    case False
    then show ?thesis
      using 1 by (subst str_nat.simps) (simp add: digits_to_nat_snoc digit_val_digit_char)
  qed
qed


text \<open>
  Rendering and reading back, piece by piece.
\<close>

lemma render_m_of_n:
  assumes "list_all is_monitor_name M"
  shows "monitors (desired_monitors ''m_of_n'' (Some q) M)
           = Inr (Some (''min '' @ py_str_int q @ '' of { '' @ py_join '' '' M @ '' }''))"
  using monitor_names_qualified [OF assms]
  by (simp add: monitors_def desired_monitors_def empty_params_def monitors_list_def
      monitor_type_def quorum_def bindR_def str_quorum_def)

lemma render_and_list:
  assumes "M \<noteq> []" and "list_all is_monitor_name M"
  shows "monitors (desired_monitors ''and_list'' q' M) = Inr (Some (py_join '' and '' M))"
proof -
  have "py_strip (py_join '' and '' M) = py_join '' and '' M"
    using join_and_shape [OF assms] by (intro py_strip_id) (simp_all add: is_space_def)
  then show ?thesis
    using monitor_names_qualified [OF assms(2)]
    by (simp add: monitors_def desired_monitors_def empty_params_def monitors_list_def
        monitor_type_def bindR_def)
qed

lemma parse_m_of_n_list:
  assumes "0 \<le> q" and "M \<noteq> []" and "list_all is_monitor_name M"
  shows "monitors_list (observed_node (''min '' @ py_str_int q @ '' of { '' @ py_join '' '' M @ '' }'')) = M"
proof -
  have ds: "\<forall>c\<in>set (str_nat (nat q)). c \<noteq> CHR ''/''"
    using str_nat_digits [of "nat q"] digit_not_slash by (auto simp: list_all_iff)
  have "\<forall>c\<in>set (''min '' @ str_nat (nat q) @ '' of { ''). c \<noteq> CHR ''/''"
    using ds by auto
  then have "findall_monitors 0 ((''min '' @ str_nat (nat q) @ '' of { '') @ (py_join '' '' M @ '' }''))
               = findall_monitors 0 (py_join '' '' M @ '' }'')"
    by (rule findall_junk)
  then show ?thesis
    using assms(1) findall_join_space [OF assms(2,3)]
    by (simp add: monitors_list_def observed_node_def empty_params_def py_str_int_def)
qed

lemma parse_m_of_n_type:
  assumes "0 \<le> q"
  shows "monitor_type (observed_node (''min '' @ py_str_int q @ '' of { '' @ X)) = Inr (Some ''m_of_n'')"
proof -
  have "search_min_of (''min '' @ str_nat (nat q) @ '' of { '' @ X) = Some (str_nat (nat q))"
    using str_nat_digits [of "nat q"] by (intro search_min_of_rendered) simp_all
  then show ?thesis
    using assms
    by (simp add: monitor_type_def observed_node_def empty_params_def py_str_int_def)
qed

text \<open>The pattern of \<open>quorum\<close> does recover the number, on an object of the kind it asks
  for.\<close>

lemma quorum_pattern_recovers:
  assumes "0 \<le> q"
  shows "quorum ((observed_node (''min '' @ py_str_int q @ '' of { '' @ X))
                   \<lparr>p_kind := Some ''tm:ltm:pool:poolstate''\<rparr>) = Inr (Some q)"
proof -
  have "search_min_of (''min '' @ str_nat (nat q) @ '' of { '' @ X) = Some (str_nat (nat q))"
    using str_nat_digits [of "nat q"] by (intro search_min_of_rendered) simp_all
  then show ?thesis
    using assms
    by (simp add: quorum_def observed_node_def empty_params_def py_str_int_def
        digits_to_nat_str_nat)
qed

text \<open>
  Claim C7, as the code has it. For every quorum \<open>q \<ge> 0\<close> and every non-empty list \<open>M\<close>
  of monitor names that the pattern \<open>/\w+/[^\s}]+\<close> matches from end to end: the desired
  parameters of type \<open>m_of_n\<close> render as \<open>min q of { ... }\<close>, and a node whose expression is
  that string yields the list \<open>M\<close> in its order and the type \<open>m_of_n\<close>; the desired
  parameters of type \<open>and_list\<close> render as \<open>a and b and ...\<close>, and a node whose expression is
  that string yields the list \<open>M\<close>, the type \<open>and_list\<close> and no quorum.
\<close>

theorem monitor_round_trip:
  assumes "0 \<le> q" and "M \<noteq> []" and "list_all is_monitor_name M"
  shows "monitors (desired_monitors ''m_of_n'' (Some q) M)
           = Inr (Some (''min '' @ py_str_int q @ '' of { '' @ py_join '' '' M @ '' }''))
       \<and> monitors_list
           (observed_node (''min '' @ py_str_int q @ '' of { '' @ py_join '' '' M @ '' }'')) = M
       \<and> monitor_type
           (observed_node (''min '' @ py_str_int q @ '' of { '' @ py_join '' '' M @ '' }''))
           = Inr (Some ''m_of_n'')
       \<and> monitors (desired_monitors ''and_list'' q' M) = Inr (Some (py_join '' and '' M))
       \<and> monitors_list (observed_node (py_join '' and '' M)) = M
       \<and> monitor_type (observed_node (py_join '' and '' M)) = Inr (Some ''and_list'')
       \<and> quorum (observed_node (py_join '' and '' M)) = Inr None"
proof (intro conjI)
  show "monitors (desired_monitors ''m_of_n'' (Some q) M)
           = Inr (Some (''min '' @ py_str_int q @ '' of { '' @ py_join '' '' M @ '' }''))"
    using assms(3) by (rule render_m_of_n)
  show "monitors_list
           (observed_node (''min '' @ py_str_int q @ '' of { '' @ py_join '' '' M @ '' }'')) = M"
    using assms by (rule parse_m_of_n_list)
  show "monitor_type
           (observed_node (''min '' @ py_str_int q @ '' of { '' @ py_join '' '' M @ '' }''))
           = Inr (Some ''m_of_n'')"
    using assms(1) by (rule parse_m_of_n_type)
  show "monitors (desired_monitors ''and_list'' q' M) = Inr (Some (py_join '' and '' M))"
    using assms(2,3) by (rule render_and_list)
  show "monitors_list (observed_node (py_join '' and '' M)) = M"
    using findall_join_and [OF assms(2,3)]
    by (simp add: monitors_list_def observed_node_def empty_params_def)
  show "monitor_type (observed_node (py_join '' and '' M)) = Inr (Some ''and_list'')"
    using search_min_of_and_list [OF assms(2,3)]
    by (simp add: monitor_type_def observed_node_def empty_params_def)
  show "quorum (observed_node (py_join '' and '' M)) = Inr None"
    by (simp add: quorum_def observed_node_def empty_params_def)
qed

lemma sample_monitor_names: "list_all is_monitor_name [''/Common/icmp'', ''/Common/tcp'']"
  by code_simp

text \<open>
  The theorem at quorum 2 and the monitors \<open>/Common/icmp\<close>, \<open>/Common/tcp\<close>.
\<close>

theorem monitor_round_trip_witness:
  "(0::int) \<le> 2 \<and> [''/Common/icmp'', ''/Common/tcp''] \<noteq> []
   \<and> list_all is_monitor_name [''/Common/icmp'', ''/Common/tcp'']
   \<and> monitors (desired_monitors ''m_of_n'' (Some 2) [''/Common/icmp'', ''/Common/tcp''])
       = Inr (Some ''min 2 of { /Common/icmp /Common/tcp }'')
   \<and> monitors_list (observed_node ''min 2 of { /Common/icmp /Common/tcp }'')
       = [''/Common/icmp'', ''/Common/tcp'']
   \<and> monitor_type (observed_node ''min 2 of { /Common/icmp /Common/tcp }'')
       = Inr (Some ''m_of_n'')
   \<and> monitors (desired_monitors ''and_list'' None [''/Common/icmp'', ''/Common/tcp''])
       = Inr (Some ''/Common/icmp and /Common/tcp'')
   \<and> monitors_list (observed_node ''/Common/icmp and /Common/tcp'')
       = [''/Common/icmp'', ''/Common/tcp'']
   \<and> monitor_type (observed_node ''/Common/icmp and /Common/tcp'') = Inr (Some ''and_list'')
   \<and> quorum (observed_node ''/Common/icmp and /Common/tcp'') = Inr None"
proof -
  have e: "''min '' @ py_str_int 2 @ '' of { '' @ py_join '' '' [''/Common/icmp'', ''/Common/tcp''] @ '' }''
             = ''min 2 of { /Common/icmp /Common/tcp }''"
    "py_join '' and '' [''/Common/icmp'', ''/Common/tcp''] = ''/Common/icmp and /Common/tcp''"
    by code_simp+
  show ?thesis
    using monitor_round_trip [of 2 "[''/Common/icmp'', ''/Common/tcp'']" None]
      sample_monitor_names
    unfolding e by simp
qed

text \<open>
  Claim C7 as stated fails in three ways. The quorum of a node is not read back: the
  property \<open>quorum\<close> applies its pattern only to an object of kind
  \<open>tm:ltm:pool:poolstate\<close>, which a node is not. A negative quorum renders with a sign the
  pattern \<open>min\s+\d+\s+of\<close> does not accept, and the type read back is \<open>and_list\<close>. A
  fully-qualified name whose partition has a character outside \<open>\w\<close> is not found again.
\<close>

theorem monitor_round_trip_counterexample:
  "monitors (desired_monitors ''m_of_n'' (Some 2) [''/Common/icmp'', ''/Common/tcp''])
     = Inr (Some ''min 2 of { /Common/icmp /Common/tcp }'')
   \<and> quorum (observed_node ''min 2 of { /Common/icmp /Common/tcp }'') = Inr None
   \<and> monitors (desired_monitors ''m_of_n'' (Some (- 1)) [''/Common/icmp''])
       = Inr (Some ''min -1 of { /Common/icmp }'')
   \<and> monitor_type (observed_node ''min -1 of { /Common/icmp }'') = Inr (Some ''and_list'')
   \<and> monitors (desired_monitors ''and_list'' None [''/my-part/icmp''])
       = Inr (Some ''/my-part/icmp'')
   \<and> monitors_list (observed_node ''/my-part/icmp'') = []"
  by code_simp

subsection \<open>The guards of the type single\<close>


text \<open>
  The guards of \<open>single\<close> where the code has them, in \<open>Difference.monitor_type\<close>: more
  than one desired monitor is refused, no desired monitor against several on the node is
  refused, and what is accepted goes on as \<open>and_list\<close>. On a node that exists the refusal
  ends the pass, in either mode, before any mutating call.
\<close>

lemma diff_monitor_type_single:
  assumes "p_monitor_type want = Some ''single''" and "p_kind want = None"
    and "p_kind have = Some ''tm:ltm:node:nodestate''"
  shows "length (monitors_list want) > 1 \<Longrightarrow>
           fst (diff_monitor_type have want) =
             Inl (F5ModuleError
               ''When using a 'monitor_type' of 'single', only one monitor may be provided.'')"
    and "length (monitors_list want) \<le> 1 \<Longrightarrow>
         length (monitors_list have) > 1 \<and> length (monitors_list want) = 0 \<Longrightarrow>
           fst (diff_monitor_type have want) =
             Inl (F5ModuleError
               ''A single monitor must be specified if more than one monitor currently exists on your pool.'')"
    and "length (monitors_list want) \<le> 1 \<Longrightarrow>
         \<not> (length (monitors_list have) > 1 \<and> length (monitors_list want) = 0) \<Longrightarrow>
         monitor_type have = Inr hmt \<Longrightarrow>
           diff_monitor_type have want =
             (Inr (if hmt = Some ''and_list'' then None else Some ''and_list''),
              want\<lparr>p_quorum := (if p_quorum want = None then p_quorum have else p_quorum want),
                   p_monitor_type := Some ''and_list''\<rparr>)"
  using assms
  by (auto simp: diff_monitor_type_def monad_defs getW_def updW_def monitor_type_def quorum_def
      monitors_list_def split: option.splits)


lemma single_rejected_on_update:
  assumes "p_state want \<in> set [Some ''present'', Some ''enabled'', Some ''disabled'', Some ''offline'']"
    and "nd_node d = Some have" and "map_of (nd_faults d) NodeExists = None"
    and "map_of (nd_faults d) NodeLoad = None"
    and "p_monitor_type want = Some ''single''" and "p_kind want = None"
    and "p_kind have = Some ''tm:ltm:node:nodestate''"
    and "fst (diff_monitor_type have want) = Inl (F5ModuleError msg)"
  shows "node_main check_mode want d = Some (NodeFailJson msg, d)"
proof -
  define m where "m = start_mm want d"
  obtain w' where dm: "diff_monitor_type have want = (Inl (F5ModuleError msg), w')"
    using assms(8) by (cases "diff_monitor_type have want") auto
  have ex: "exists_on_device m = (Inr True, m)"
    using assms(2,3) by (simp add: exists_on_device_def m_def start_mm_def)
  have rd: "read_current_from_device m = (Inr have, m)"
    using assms(2,4) by (simp add: read_current_from_device_def node_load_def m_def start_mm_def)
  have cmp: "onWant (compare_monitor_type have) (m\<lparr>mm_have := Some have\<rparr>) =
               (Inl (F5ModuleError msg), m\<lparr>mm_have := Some have, mm_want := w'\<rparr>)"
    using dm by (simp add: onWant_def compare_monitor_type_def catchE_def raiseE_def m_def
        start_mm_def)
  have "update check_mode m = (Inl (F5ModuleError msg), m\<lparr>mm_have := Some have, mm_want := w'\<rparr>)"
    by (simp add: update_def bindE_def rd should_update_def update_changed_options_def cmp)
  then have "exec_module check_mode m =
               Some (Inl (F5ModuleError msg), m\<lparr>mm_have := Some have, mm_want := w'\<rparr>)"
    using assms(1) ex by (simp add: exec_module_def present_def Let_def m_def start_mm_def)
  then show ?thesis
    unfolding node_main_def start_mm_def [symmetric] m_def [symmetric]
    by (simp add: m_def start_mm_def)
qed

text \<open>
  Claim C6 at the creation of a node: desired type \<open>single\<close> with two monitors, on a
  device where the node is not there. \<open>create\<close> consults no comparison of \<open>Difference\<close>:
  no validation error is raised, the node is created with both monitors and the pass
  reports \<open>changed\<close> with the type \<open>single\<close>.
\<close>

theorem single_monitor_failing_input:
  "node_main False
     (node1\<lparr>p_monitor_type := Some ''single'',
            p_monitors := Some (MonList [''/Common/icmp'', ''/Common/tcp''])\<rparr>) no_node =
   Some (NodeExitJson
          \<lparr>nr_changed = True,
           nr_changes =
             \<lparr>r_monitor_type = Some ''single'', r_quorum = None,
              r_monitors = Some ''/Common/icmp and /Common/tcp'',
              r_description = None, r_fqdn = None,
              r_session = Some ''user-enabled'', r_state = Some ''user-up''\<rparr>\<rparr>,
         \<lparr>nd_node =
            Some (empty_params
                   \<lparr>p_name := Some ''node1'', p_partition := Some ''Common'',
                    p_kind := Some ''tm:ltm:node:nodestate'',
                    p_monitors := Some (MonStr ''/Common/icmp and /Common/tcp''),
                    p_address := Some ''10.0.0.1'',
                    p_session := Some ''user-enabled'', p_state := Some ''user-up''\<rparr>),
          nd_fqdn_checks = Some 0,
          nd_calls =
            [CallNodeCreate (Some ''node1'') ''Common''
               \<lparr>pl_monitor = Some ''/Common/icmp and /Common/tcp'', pl_description = None,
                pl_address = Some ''10.0.0.1'', pl_fqdn = None,
                pl_session = Some ''user-enabled'', pl_state = Some ''user-up''\<rparr>],
          nd_faults = []\<rparr>)"
  by code_simp

end
